theory Spec2Isabelle
  imports Complex_Main
begin

section \<open>Residual block builder (models/eager\_torch/resnet.py)\<close>

text \<open>
  \<open>ResBlock.__init__\<close> turns its keyword arguments into the argument lists of one call
  of the generic \<open>ConvBlock\<close>. \<open>ResBlock_init\<close> follows the constructor line by line up to
  that call and returns its arguments; \<open>ResBlock_constructed\<close> adds the call itself.

  Argument domains: \<open>kernel_size\<close>, \<open>strides\<close> and \<open>groups\<close> are an int or a list of ints,
  \<open>filters\<close> is an int, a list of ints or a string handed to Python's \<open>eval\<close>,
  \<open>downsample\<close> and \<open>bottleneck\<close> are a bool or an int. Python ints are unbounded.

  \<open>IndexError\<close> is the exception of an index into an empty list, \<open>EvalError\<close> any
  exception of \<open>eval\<close>, \<open>ConfigError\<close> the configuration error of \<open>ConvBlock\<close>.
  \<open>Unmodelled\<close> is no exception: it marks the inputs the model does not follow (a stride
  outside 64 bits, for which numpy leaves its 64-bit integer arithmetic).
\<close>

datatype pyerror = IndexError | EvalError | ConfigError | Unmodelled

datatype arg = AInt int | AList "int list"

datatype farg = FInt int | FList "int list" | FStr string

datatype flag = FlBool bool | FlInt int

record res_block_args =
  layout :: string
  filters :: farg
  kernel_size :: arg
  strides :: arg
  downsample :: flag
  bottleneck :: flag
  groups :: arg
  op :: string
  n_reps :: int

text \<open>The values the constructor works on, after the scalars have been broadcast.\<close>

record res_state =
  rs_layout :: string
  rs_filters :: "int list"
  rs_kernel_size :: "int list"
  rs_strides :: "int list"
  rs_strides_d :: "int list"
  rs_groups :: "arg list"
  rs_side_branch_stride :: int
  rs_side_branch_stride_d :: int

text \<open>One positional dictionary of \<open>layer_params\<close>: either both keys or none.\<close>

record layer_param =
  lp_strides :: "int list option"
  lp_side_branch_strides :: "int option"

record side_branch_args =
  sb_layout :: string
  sb_filters :: int
  sb_strides :: int

record conv_block_call =
  layer_params :: "layer_param list"
  cb_layout :: string
  cb_filters :: "int list"
  cb_kernel_size :: "int list"
  cb_strides :: "int list"
  cb_groups :: "arg list"
  cb_side_branch :: side_branch_args

definition CONV_LETTERS :: "char list" where
  "CONV_LETTERS = [CHR ''c'', CHR ''C'', CHR ''w'', CHR ''W'', CHR ''t'', CHR ''T'']"

definition num_convs :: "string \<Rightarrow> nat" where
  "num_convs l = length (filter (\<lambda>letter. letter \<in> set CONV_LETTERS) l)"

text \<open>\<open>[x] * n if isinstance(x, int) else x\<close>\<close>

definition broadcast :: "nat \<Rightarrow> arg \<Rightarrow> int list" where
  "broadcast n v = (case v of AInt x \<Rightarrow> replicate n x | AList xs \<Rightarrow> xs)"

text \<open>\<open>if x:\<close> on a bool or an int.\<close>

definition truthy :: "flag \<Rightarrow> bool" where
  "truthy f = (case f of FlBool b \<Rightarrow> b | FlInt n \<Rightarrow> n \<noteq> 0)"

text \<open>\<open>dflt if x is True else x\<close>, read as the integer it multiplies with (\<open>False\<close> is 0).\<close>

definition flag_value :: "int \<Rightarrow> flag \<Rightarrow> int" where
  "flag_value dflt f = (case f of FlBool b \<Rightarrow> (if b then dflt else 0) | FlInt n \<Rightarrow> n)"

definition and_then :: "'e + 'a \<Rightarrow> ('a \<Rightarrow> 'e + 'b) \<Rightarrow> 'e + 'b" where
  "and_then r f = (case r of Inl e \<Rightarrow> Inl e | Inr x \<Rightarrow> f x)"

text \<open>
  Line 33--34. Python's \<open>eval\<close> and \<open>get_num_channels(inputs)\<close> are not part of the
  file: the evaluator is the parameter \<open>py_eval\<close> (the expression and the value bound to
  \<open>S\<close> and \<open>same\<close>), the channel count is \<open>num_channels\<close>.
\<close>

definition eval_filters :: "(string \<Rightarrow> int \<Rightarrow> pyerror + arg) \<Rightarrow> int \<Rightarrow> farg \<Rightarrow> pyerror + arg" where
  "eval_filters py_eval num_channels f =
     (case f of FStr s \<Rightarrow> py_eval s num_channels
              | FInt n \<Rightarrow> Inr (AInt n)
              | FList xs \<Rightarrow> Inr (AList xs))"

text \<open>
  Line 41, \<open>np.prod(strides)\<close>: numpy multiplies a list of Python ints that fit 64 bits as
  64-bit signed integers, so the product wraps around; the product of the empty list is
  the float \<open>1.0\<close>, which Python holds equal to the int 1 it is modelled as.
\<close>

definition int64 :: "int \<Rightarrow> bool" where
  "int64 x = (- (2 ^ 63) \<le> x \<and> x < 2 ^ 63)"

definition wrap64 :: "int \<Rightarrow> int" where
  "wrap64 x = (x + 2 ^ 63) mod 2 ^ 64 - 2 ^ 63"

definition np_prod :: "int list \<Rightarrow> pyerror + int" where
  "np_prod xs = (if list_all int64 xs then Inr (wrap64 (prod_list xs)) else Inl Unmodelled)"

text \<open>Lines 31--42. \<open>side_branch_stride_d\<close> is \<open>int(side_branch_stride)\<close>, a Python int again.\<close>

definition resolve :: "res_block_args \<Rightarrow> arg \<Rightarrow> pyerror + res_state" where
  "resolve a fv =
     (let n = num_convs (layout a);
          fs = broadcast n fv;
          ks = broadcast n (kernel_size a);
          ss = broadcast n (strides a)
      in and_then (np_prod ss) (\<lambda>p.
         Inr \<lparr>rs_layout = layout a, rs_filters = fs, rs_kernel_size = ks, rs_strides = ss,
              rs_strides_d = ss, rs_groups = replicate n (groups a),
              rs_side_branch_stride = p, rs_side_branch_stride_d = p\<rparr>))"

text \<open>Lines 44--47; \<open>strides_d[0]\<close> raises on an empty list.\<close>

definition apply_downsample :: "flag \<Rightarrow> res_state \<Rightarrow> pyerror + res_state" where
  "apply_downsample f st =
     (if truthy f then
        (let d = flag_value 2 f in
         case rs_strides_d st of
           [] \<Rightarrow> Inl IndexError
         | s # rest \<Rightarrow>
             Inr (st\<lparr>rs_strides_d := (s * d) # rest,
                     rs_side_branch_stride_d := rs_side_branch_stride_d st * d\<rparr>))
      else Inr st)"

text \<open>Lines 48--55; \<open>filters[0]\<close> raises on an empty list, after the other lists are extended.\<close>

definition apply_bottleneck :: "flag \<Rightarrow> res_state \<Rightarrow> pyerror + res_state" where
  "apply_bottleneck f st =
     (if truthy f then
        (let k = flag_value 4 f in
         case rs_filters st of
           [] \<Rightarrow> Inl IndexError
         | f0 # frest \<Rightarrow>
             Inr (st\<lparr>rs_layout := ''cna'' @ rs_layout st @ ''cna'',
                     rs_kernel_size := [1] @ rs_kernel_size st @ [1],
                     rs_strides := [1] @ rs_strides st @ [1],
                     rs_strides_d := [1] @ rs_strides_d st @ [1],
                     rs_groups := [AInt 1] @ rs_groups st @ [AInt 1],
                     rs_filters := [f0] @ (f0 # frest) @ [f0 * k]\<rparr>))
      else Inr st)"

text \<open>
  Lines 56--62, the arguments of the call of \<open>ConvBlock\<close>; \<open>filters[-1]\<close> raises on an
  empty list.
\<close>

definition build_call :: "string \<Rightarrow> int \<Rightarrow> res_state \<Rightarrow> pyerror + conv_block_call" where
  "build_call opr reps st =
     (if rs_filters st = [] then Inl IndexError
      else Inr \<lparr>layer_params =
                  [\<lparr>lp_strides = Some (rs_strides_d st),
                    lp_side_branch_strides = Some (rs_side_branch_stride_d st)\<rparr>]
                  @ replicate (nat (reps - 1)) \<lparr>lp_strides = None, lp_side_branch_strides = None\<rparr>,
                cb_layout = ''B'' @ rs_layout st @ opr,
                cb_filters = rs_filters st,
                cb_kernel_size = rs_kernel_size st,
                cb_strides = rs_strides st,
                cb_groups = rs_groups st,
                cb_side_branch = \<lparr>sb_layout = ''c'', sb_filters = last (rs_filters st),
                                  sb_strides = rs_side_branch_stride st\<rparr>\<rparr>)"

definition ResBlock_init ::
  "(string \<Rightarrow> int \<Rightarrow> pyerror + arg) \<Rightarrow> int \<Rightarrow> res_block_args \<Rightarrow> pyerror + conv_block_call" where
  "ResBlock_init py_eval num_channels a =
     and_then (eval_filters py_eval num_channels (filters a)) (\<lambda>fv.
     and_then (resolve a fv) (\<lambda>st0.
     and_then (apply_downsample (downsample a) st0) (\<lambda>st1.
     and_then (apply_bottleneck (bottleneck a) st1) (\<lambda>st2.
     build_call (op a) (n_reps a) st2))))"

text \<open>
  Modelled from the spec: \<open>ConvBlock\<close> is not part of the file. The number of
  convolution letters of the layout it receives is the required length of the parallel
  per-layer parameter lists (filters, kernel_size, strides, groups, and the strides of a
  positional dictionary); a list of another length fails at once with a configuration
  error. Nothing else of \<open>ConvBlock\<close> is modelled.
\<close>

definition ConvBlock :: "conv_block_call \<Rightarrow> pyerror + conv_block_call" where
  "ConvBlock c =
     (let n = num_convs (cb_layout c)
      in if length (cb_filters c) = n \<and> length (cb_kernel_size c) = n
            \<and> length (cb_strides c) = n \<and> length (cb_groups c) = n
            \<and> list_all (\<lambda>p. case lp_strides p of None \<Rightarrow> True | Some sd \<Rightarrow> length sd = n)
                  (layer_params c)
         then Inr c else Inl ConfigError)"

text \<open>The whole constructor: the arguments are built, then \<open>ConvBlock\<close> is called with them.\<close>

definition ResBlock_constructed ::
  "(string \<Rightarrow> int \<Rightarrow> pyerror + arg) \<Rightarrow> int \<Rightarrow> res_block_args \<Rightarrow> pyerror + conv_block_call" where
  "ResBlock_constructed py_eval num_channels a =
     and_then (ResBlock_init py_eval num_channels a) ConvBlock"

text \<open>The default keyword arguments of the constructor.\<close>

definition default_args :: res_block_args where
  "default_args = \<lparr>layout = ''cnacna'', filters = FStr ''same'', kernel_size = AInt 3,
                    strides = AInt 1, downsample = FlBool False, bottleneck = FlBool False,
                    groups = AInt 1, op = ''+'', n_reps = 1\<rparr>"

text \<open>An evaluator that knows the two names \<open>S\<close> and \<open>same\<close> and nothing else.\<close>

definition eval_same :: "string \<Rightarrow> int \<Rightarrow> pyerror + arg" where
  "eval_same s c = (if s = ''same'' \<or> s = ''S'' then Inr (AInt c) else Inl EvalError)"

subsection \<open>Notions used in the statements about the block builder\<close>

text \<open>What the bottleneck branch does to a per-convolution list of integers.\<close>

definition with_bottleneck :: "flag \<Rightarrow> int list \<Rightarrow> int list" where
  "with_bottleneck f xs = (if truthy f then [1] @ xs @ [1] else xs)"

text \<open>The layout after the bottleneck branch, before \<open>'B'\<close> and the merge operator are added.\<close>

definition expanded_layout :: "res_block_args \<Rightarrow> string" where
  "expanded_layout a = (if truthy (bottleneck a) then ''cna'' @ layout a @ ''cna'' else layout a)"


text \<open>
  Modelled from the spec: \<open>ConvBlock\<close> is not part of the file. Repetition \<open>i\<close> of the
  block is built from the keyword arguments of the call, overridden by the keys of the
  \<open>i\<close>-th positional dictionary; there are as many repetitions as positional dictionaries.
\<close>

definition rep_strides :: "conv_block_call \<Rightarrow> nat \<Rightarrow> int list option" where
  "rep_strides c i =
     (if i < length (layer_params c)
      then Some (case lp_strides (layer_params c ! i) of Some s \<Rightarrow> s | None \<Rightarrow> cb_strides c)
      else None)"

definition rep_side_branch_strides :: "conv_block_call \<Rightarrow> nat \<Rightarrow> int option" where
  "rep_side_branch_strides c i =
     (if i < length (layer_params c)
      then Some (case lp_side_branch_strides (layer_params c ! i) of Some s \<Rightarrow> s
                 | None \<Rightarrow> sb_strides (cb_side_branch c))
      else None)"

text \<open>
  The filters of a bottleneck block in the words of the specification: the input channel
  count in front, the last filter times the expansion factor at the back.
\<close>

definition spec_bottleneck_filters :: "int \<Rightarrow> int list \<Rightarrow> int \<Rightarrow> int list" where
  "spec_bottleneck_filters num_channels fs k = [num_channels] @ fs @ [last fs * k]"

section \<open>DropBlock (models/tf/layers/drop\_block.py)\<close>

subsection \<open>Tensors and the framework primitives the operator calls\<close>

text \<open>
  A \<open>tf.float32\<close> value is a real number or a non-finite value (NaN or an infinity).
  \<open>dropout_rate\<close> stands for the value of the float32 tensor the framework makes of the
  rate. Products and quotients are the exact ones: the rounding of float32 arithmetic is
  not modelled, and a computed value such as \<open>gamma\<close> is the value before rounding. Of the
  float operations only those the operator uses are defined: a product, a quotient by a
  finite divisor (non-finite when the divisor is zero) and the comparison of a uniform
  sample with a probability (false for NaN, the only non-finite probability the
  operator can compute: \<open>0 / 0\<close> on an empty spatial extent).
\<close>

datatype fl = Fin real | NonFinite

definition fl_mul :: "fl \<Rightarrow> fl \<Rightarrow> fl" where
  "fl_mul a b = (case (a, b) of (Fin x, Fin y) \<Rightarrow> Fin (x * y) | _ \<Rightarrow> NonFinite)"

definition fl_div :: "fl \<Rightarrow> real \<Rightarrow> fl" where
  "fl_div a d = (case a of Fin x \<Rightarrow> (if d = 0 then NonFinite else Fin (x / d)) | NonFinite \<Rightarrow> NonFinite)"

definition fl_less :: "real \<Rightarrow> fl \<Rightarrow> bool" where
  "fl_less u p = (case p of Fin x \<Rightarrow> u < x | NonFinite \<Rightarrow> False)"

text \<open>A tensor is its shape and its elements in row-major order.\<close>

record 'a tensor =
  t_shape :: "nat list"
  t_data :: "'a list"

fun cart :: "'a list list \<Rightarrow> 'a list list" where
  "cart [] = [[]]"
| "cart (xs # xss) = concat (map (\<lambda>x. map ((#) x) (cart xss)) xs)"

definition indices :: "nat list \<Rightarrow> nat list list" where
  "indices sh = cart (map (\<lambda>n. [0..<n]) sh)"

fun offset :: "nat list \<Rightarrow> nat list \<Rightarrow> nat" where
  "offset (n # ns) (i # is) = i * prod_list ns + offset ns is"
| "offset _ _ = 0"

definition t_at :: "'a tensor \<Rightarrow> nat list \<Rightarrow> 'a" where
  "t_at t idx = t_data t ! offset (t_shape t) idx"

definition tabulate :: "nat list \<Rightarrow> (nat list \<Rightarrow> 'a) \<Rightarrow> 'a tensor" where
  "tabulate sh f = \<lparr>t_shape = sh, t_data = map f (indices sh)\<rparr>"

text \<open>
  The Python value \<open>block_size\<close>: an int, a tuple of ints, or a value of another type
  (a float, a list, \<open>None\<close>). A tuple with an entry that is not an int is not modelled.
\<close>

datatype block_size = BInt int | BTuple "int list" | BOther

text \<open>
  \<open>ValueError\<close> carries the message of a \<open>raise\<close> statement of the file.
  \<open>FrameworkError\<close> is any exception raised inside a call of the framework or of the
  pooling layer, whatever its Python class: a dtype that \<open>tf.math.minimum\<close> rejects, a
  value that does not convert to the requested dtype, a rank, data format or window that
  a primitive rejects.
\<close>

datatype dberror = ValueError string | FrameworkError

text \<open>
  The random generator behind \<open>noise_dist.sample(shape, seed=seed)\<close>: a source of uniform
  numbers of \<open>[0, 1)\<close>, indexed by the sampling operation and the element, and the number
  of sampling operations run so far. A Bernoulli sample is 1 where the uniform number is
  below the success probability.
\<close>

record rng =
  uniform :: "nat \<Rightarrow> nat \<Rightarrow> real"
  ops_run :: nat

definition bernoulli_sample :: "rng \<Rightarrow> fl \<Rightarrow> nat list \<Rightarrow> real tensor \<times> rng" where
  "bernoulli_sample g probs sh =
     (\<lparr>t_shape = sh,
       t_data = map (\<lambda>i. if fl_less (uniform g (ops_run g) i) probs then 1 else 0)
                    [0..<prod_list sh]\<rparr>,
      g\<lparr>ops_run := ops_run g + 1\<rparr>)"

text \<open>\<open>tf.pad\<close> with zeros; one pair (before, after) per axis.\<close>

definition tf_pad :: "real tensor \<Rightarrow> (nat \<times> nat) list \<Rightarrow> dberror + real tensor" where
  "tf_pad t pads =
     (if length pads \<noteq> length (t_shape t) then Inl FrameworkError
      else Inr (tabulate (map2 (\<lambda>n (l, r). l + n + r) (t_shape t) pads)
        (\<lambda>idx. if list_all2 (\<lambda>i (n, (l, r)). l \<le> i \<and> i < l + n) idx (zip (t_shape t) pads)
                then t_at t (map2 (\<lambda>i (l, r). i - l) idx pads) else 0)))"

text \<open>
  The positions of one axis of extent \<open>n\<close> that a window of size \<open>k\<close> sees at output
  position \<open>i\<close> under stride 1 and \<open>'same'\<close> padding: \<open>(k - 1) div 2\<close> positions before
  \<open>i\<close>, the rest after it, cut to the axis.
\<close>

definition window :: "nat \<Rightarrow> int \<Rightarrow> nat \<Rightarrow> nat list" where
  "window n k i =
     map nat (filter (\<lambda>j. 0 \<le> j \<and> j < int n)
                     [int i - (k - 1) div 2 .. int i - (k - 1) div 2 + k - 1])"

fun max_of :: "real list \<Rightarrow> real" where
  "max_of [] = 0"
| "max_of (x # xs) = foldl max x xs"

text \<open>
  Modelled from the spec: \<open>max_pooling\<close> of \<open>.pooling\<close> is not part of the file. It is a
  max-pooling with the given window per spatial axis, stride 1 and \<open>'same'\<close> padding; the
  batch and channel axes have window 1. The model accepts what every pooling layer of
  the framework accepts and rejects the rest: one to three spatial axes, the data format
  \<open>channels_first\<close> or \<open>channels_last\<close>, a rank that fits the data format and windows
  of at least 1. (\<open>max_of []\<close> is never reached: a window of size at least 1 contains
  the position itself.)
\<close>

definition max_pooling :: "real tensor \<Rightarrow> int list \<Rightarrow> string \<Rightarrow> dberror + real tensor" where
  "max_pooling t pool_sz data_format =
     (let ks = (if data_format = ''channels_first'' then [1, 1] @ pool_sz
                else [1] @ pool_sz @ [1])
      in if length ks \<noteq> length (t_shape t) \<or> (\<exists>k \<in> set pool_sz. k < 1)
            \<or> length pool_sz < 1 \<or> 3 < length pool_sz
            \<or> (data_format \<noteq> ''channels_first'' \<and> data_format \<noteq> ''channels_last'')
         then Inl FrameworkError
         else Inr (tabulate (t_shape t)
                (\<lambda>idx. max_of (map (t_at t)
                   (cart (map (\<lambda>(n, k, i). window n k i) (zip (t_shape t) (zip ks idx))))))))"

text \<open>Broadcasting of two shapes, aligned at the last axis, and the index an operand is read at.\<close>

definition bshape :: "nat list \<Rightarrow> nat list \<Rightarrow> nat list option" where
  "bshape a b =
     (let r = max (length a) (length b);
          a' = replicate (r - length a) 1 @ a;
          b' = replicate (r - length b) 1 @ b
      in if list_all2 (\<lambda>x y. x = y \<or> x = 1 \<or> y = 1) a' b'
         then Some (map2 (\<lambda>x y. if x = 1 then y else x) a' b') else None)"

definition bidx :: "nat list \<Rightarrow> nat list \<Rightarrow> nat list" where
  "bidx sh idx = map2 (\<lambda>n i. if n = 1 then 0 else i) sh (drop (length idx - length sh) idx)"

definition tf_multiply :: "fl tensor \<Rightarrow> real tensor \<Rightarrow> dberror + fl tensor" where
  "tf_multiply x m =
     (case bshape (t_shape x) (t_shape m) of
        None \<Rightarrow> Inl FrameworkError
      | Some sh \<Rightarrow>
          Inr (tabulate sh (\<lambda>idx. fl_mul (t_at x (bidx (t_shape x) idx))
                                         (Fin (t_at m (bidx (t_shape m) idx))))))"

definition tf_size :: "'a tensor \<Rightarrow> nat" where
  "tf_size t = prod_list (t_shape t)"

definition reduce_sum :: "real tensor \<Rightarrow> real" where
  "reduce_sum t = sum_list (t_data t)"

subsection \<open>The operator\<close>

text \<open>Lines 52--56: \<open>input_shape[2:]\<close> and \<open>input_shape[1:2]\<close>, or \<open>input_shape[1:-1]\<close> and \<open>input_shape[-1:]\<close>.\<close>

definition spatial_dims_of :: "string \<Rightarrow> nat list \<Rightarrow> nat list" where
  "spatial_dims_of data_format input_shape =
     (if data_format = ''channels_first'' then drop 2 input_shape
      else butlast (drop 1 input_shape))"

definition channels_of :: "string \<Rightarrow> nat list \<Rightarrow> nat list" where
  "channels_of data_format input_shape =
     (if data_format = ''channels_first'' then take 1 (drop 1 input_shape)
      else drop (length input_shape - 1) input_shape)"

text \<open>
  Lines 58--66: the Python value \<open>block_size\<close>, one integer per spatial dimension, and the
  tensor \<open>block_size_tf\<close> made of it. \<open>tf.convert_to_tensor\<close> of a list of ints is an int32
  tensor only if the list is not empty and its entries fit 32 bits (the empty list gives
  a float32 tensor, larger entries another integer dtype or no tensor at all); for a
  tuple the dtype int32 is requested, and entries that do not fit make the conversion fail.
\<close>

definition int32 :: "int \<Rightarrow> bool" where
  "int32 x = (- (2 ^ 31) \<le> x \<and> x < 2 ^ 31)"

datatype bs_tensor = Int32Tensor "int list" | OtherTensor

definition resolve_block_size :: "block_size \<Rightarrow> nat \<Rightarrow> dberror + (int list \<times> bs_tensor)" where
  "resolve_block_size block_size spatial_ndim =
     (case block_size of
        BInt b \<Rightarrow>
          Inr (replicate spatial_ndim b,
               if spatial_ndim \<noteq> 0 \<and> int32 b then Int32Tensor (replicate spatial_ndim b)
               else OtherTensor)
      | BTuple bs \<Rightarrow>
          (if length bs \<noteq> spatial_ndim
           then Inl (ValueError ''Length of `block_size` should be the same as spatial dimensions of input.'')
           else if list_all int32 bs then Inr (bs, Int32Tensor bs)
           else Inl FrameworkError)
      | BOther \<Rightarrow> Inl (ValueError ''block_size should be int or tuple!''))"

text \<open>
  Lines 67--68: \<open>tf.math.minimum\<close> with the spatial extents (an int32 tensor), which
  raises for a tensor of another dtype, then \<open>tf.math.maximum\<close> with 1.
\<close>

definition block_size_tf :: "bs_tensor \<Rightarrow> nat list \<Rightarrow> dberror + int list" where
  "block_size_tf t spatial_dims =
     (case t of
        OtherTensor \<Rightarrow> Inl FrameworkError
      | Int32Tensor bs \<Rightarrow> Inr (map (\<lambda>b. max b 1) (map2 min bs (map int spatial_dims))))"

text \<open>Line 73.\<close>

definition inner_area :: "int list \<Rightarrow> nat list \<Rightarrow> int list" where
  "inner_area bs_tf spatial_dims = map2 (\<lambda>d b. d - b + 1) (map int spatial_dims) bs_tf"

text \<open>Lines 76--77: two successive divisions (the value before any float32 rounding).\<close>

definition gamma :: "real \<Rightarrow> nat list \<Rightarrow> int list \<Rightarrow> int list \<Rightarrow> fl" where
  "gamma dropout_rate spatial_dims bs_tf inner =
     fl_div (fl_div (Fin (dropout_rate * prod_list (map real spatial_dims)))
                    (prod_list (map real_of_int bs_tf)))
            (prod_list (map real_of_int inner))"

text \<open>Lines 82--85.\<close>

definition sampling_mask_shape :: "string \<Rightarrow> nat list \<Rightarrow> int list \<Rightarrow> nat list" where
  "sampling_mask_shape data_format channels inner =
     (if data_format = ''channels_first'' then [1] @ channels @ map nat inner
      else [1] @ map nat inner @ channels)"

text \<open>Lines 88--94.\<close>

definition left_spatial_pad :: "int list \<Rightarrow> int list" where
  "left_spatial_pad bs_tf = map (\<lambda>b. (b - 1) div 2) bs_tf"

definition right_spatial_pad :: "int list \<Rightarrow> int list" where
  "right_spatial_pad bs_tf = map2 (\<lambda>b l. b - 1 - l) bs_tf (left_spatial_pad bs_tf)"

definition pad_shape :: "string \<Rightarrow> int list \<Rightarrow> (nat \<times> nat) list" where
  "pad_shape data_format bs_tf =
     (let spatial_pads = zip (map nat (left_spatial_pad bs_tf)) (map nat (right_spatial_pad bs_tf))
      in if data_format = ''channels_first'' then [(0, 0), (0, 0)] @ spatial_pads
         else [(0, 0)] @ spatial_pads @ [(0, 0)])"

text \<open>Line 98: the pooling window is the Python value \<open>block_size\<close>, not \<open>block_size_tf\<close>.\<close>

definition pool_size :: "int list \<Rightarrow> int list" where
  "pool_size block_size = block_size"

text \<open>Lines 47--102: the mask of kept elements and the generator after the sampling.\<close>

definition dropblock_mask ::
  "rng \<Rightarrow> nat list \<Rightarrow> real \<Rightarrow> block_size \<Rightarrow> string \<Rightarrow> dberror + (real tensor \<times> rng)" where
  "dropblock_mask g input_shape dropout_rate block_size data_format =
     (let spatial_dims = spatial_dims_of data_format input_shape;
          channels = channels_of data_format input_shape;
          spatial_ndim = length spatial_dims
      in and_then (resolve_block_size block_size spatial_ndim) (\<lambda>(bs, t).
         and_then (block_size_tf t spatial_dims) (\<lambda>bs_tf.
         let inner = inner_area bs_tf spatial_dims;
             (mask, g') = bernoulli_sample g (gamma dropout_rate spatial_dims bs_tf inner)
                            (sampling_mask_shape data_format channels inner)
         in and_then (tf_pad mask (pad_shape data_format bs_tf)) (\<lambda>mask.
            and_then (max_pooling mask (pool_size bs) data_format) (\<lambda>mask.
            Inr (mask\<lparr>t_data := map (\<lambda>v. 1 - v) (t_data mask)\<rparr>, g'))))))"

text \<open>\<open>_dropblock\<close>: the mask, then lines 103--107.\<close>

definition priv_dropblock ::
  "rng \<Rightarrow> fl tensor \<Rightarrow> real \<Rightarrow> block_size \<Rightarrow> string \<Rightarrow> dberror + (fl tensor \<times> rng)" where
  "priv_dropblock g inputs dropout_rate block_size data_format =
     and_then (dropblock_mask g (t_shape inputs) dropout_rate block_size data_format) (\<lambda>(mask, g').
     and_then (tf_multiply inputs mask) (\<lambda>output.
     Inr (output\<lparr>t_data := map (\<lambda>v. fl_div (fl_mul v (Fin (real (tf_size mask)))) (reduce_sum mask))
                                  (t_data output)\<rparr>, g')))"

text \<open>
  Lines 39--42. \<open>tf.cond\<close> calls both branch functions when the operator is built, so an
  exception of \<open>_dropblock\<close> is raised whatever the predicate is; when the operator
  runs, only the chosen branch computes: the true branch gives the input itself and
  leaves the generator as it is. The test \<open>dropout_rate = 0\<close> is on the float32 value
  that \<open>dropout_rate\<close> stands for: a Python rate that rounds to zero in float32 is 0 here.
\<close>

definition dropblock ::
  "rng \<Rightarrow> fl tensor \<Rightarrow> real \<Rightarrow> block_size \<Rightarrow> bool \<Rightarrow> string \<Rightarrow> dberror + (fl tensor \<times> rng)" where
  "dropblock g inputs dropout_rate block_size is_training data_format =
     and_then (priv_dropblock g inputs dropout_rate block_size data_format) (\<lambda>out.
       if \<not> is_training \<or> dropout_rate = 0 then Inr (inputs, g) else Inr out)"

subsection \<open>Notions used in the statements about the operator\<close>

text \<open>The block size in the words of the specification: the request clamped to \<open>[1, extent]\<close>.\<close>

definition spec_effective_block_size :: "int list \<Rightarrow> nat list \<Rightarrow> int list" where
  "spec_effective_block_size bs spatial_dims = map2 (\<lambda>b d. max 1 (min b (int d))) bs spatial_dims"

text \<open>A block size of a valid type: an int, or a tuple with one entry per spatial dimension.\<close>

definition valid_block_size :: "block_size \<Rightarrow> nat \<Rightarrow> bool" where
  "valid_block_size block_size spatial_ndim =
     (case block_size of BInt _ \<Rightarrow> True | BTuple bs \<Rightarrow> length bs = spatial_ndim | BOther \<Rightarrow> False)"

text \<open>
  A valid block size whose entries are at least 1 and fit 32 bits, and a data format and
  a number of spatial dimensions the pooling accepts: what building the operator needs.
\<close>

definition buildable :: "block_size \<Rightarrow> string \<Rightarrow> nat \<Rightarrow> bool" where
  "buildable block_size data_format spatial_ndim =
     ((data_format = ''channels_first'' \<or> data_format = ''channels_last'')
      \<and> 1 \<le> spatial_ndim \<and> spatial_ndim \<le> 3
      \<and> (case block_size of
            BInt b \<Rightarrow> 1 \<le> b \<and> int32 b
          | BTuple bs \<Rightarrow> length bs = spatial_ndim \<and> list_all (\<lambda>b. 1 \<le> b \<and> int32 b) bs
          | BOther \<Rightarrow> False))"

text \<open>A generator whose uniform numbers are all \<open>u\<close>, and a one-element input.\<close>

definition const_rng :: "real \<Rightarrow> rng" where
  "const_rng u = \<lparr>uniform = (\<lambda>_ _. u), ops_run = 0\<rparr>"

definition unit_input :: "fl \<Rightarrow> fl tensor" where
  "unit_input v = \<lparr>t_shape = [1, 1, 1, 1], t_data = [v]\<rparr>"

section \<open>Architecture registry (models/eager\_torch/resnet.py)\<close>

text \<open>
  Modelled from the spec: the \<open>Config\<close> class and \<open>Encoder.default_config\<close> are not part
  of the file. A configuration is a hierarchical key-path mapping, here the map from its
  leaf paths to their values; \<open>config[path] = v\<close> writes the leaf \<open>path\<close> (last writer
  wins), \<open>config[key] += dict(k=v, ...)\<close> writes the leaves \<open>key/k\<close>. The configuration
  of \<open>Encoder\<close> is the parameter \<open>encoder\<close> of every \<open>default_config\<close>.
\<close>

datatype cval =
  VBool bool | VInt int | VReal real | VStr string | VClass string
  | VIntList "int list" | VBoolList "bool list" | VStrList "string list"

type_synonym config = "string \<rightharpoonup> cval"

definition cfg_set :: "config \<Rightarrow> string \<Rightarrow> cval \<Rightarrow> config" where
  "cfg_set c path v = c(path \<mapsto> v)"

definition cfg_add :: "config \<Rightarrow> string \<Rightarrow> (string \<times> cval) list \<Rightarrow> config" where
  "cfg_add c key kvs = fold (\<lambda>(k, v) c'. cfg_set c' (key @ ''/'' @ k) v) kvs c"

definition ResNet_default_config :: "config \<Rightarrow> config" where
  "ResNet_default_config encoder =
     (let config = encoder;
          config = cfg_set config ''common/conv/bias'' (VBool False);
          config = cfg_add config ''initial_block''
                     [(''layout'', VStr ''cnap''), (''filters'', VInt 64), (''kernel_size'', VInt 7),
                      (''strides'', VInt 2), (''pool_size'', VInt 3), (''pool_strides'', VInt 2)];
          config = cfg_set config ''body/encoder/num_stages'' (VInt 4);
          config = cfg_set config ''body/encoder/order'' (VStrList [''block'']);
          config = cfg_add config ''body/encoder/blocks''
                     [(''base'', VClass ''ResBlock''), (''layout'', VStr ''cnacna''),
                      (''filters'', VIntList [64, 128, 256, 512]),
                      (''n_reps'', VIntList [1, 1, 1, 1]),
                      (''downsample'', VBoolList [False, True, True, True]),
                      (''bottleneck'', VBool False)];
          config = cfg_add config ''head'' [(''layout'', VStr ''Vdf''), (''dropout_rate'', VReal (4 / 10))];
          config = cfg_set config ''loss'' (VStr ''ce'')
      in config)"

definition ResNet18_default_config :: "config \<Rightarrow> config" where
  "ResNet18_default_config encoder =
     cfg_set (ResNet_default_config encoder) ''body/encoder/blocks/n_reps'' (VIntList [2, 2, 2, 2])"

definition ResNet34_default_config :: "config \<Rightarrow> config" where
  "ResNet34_default_config encoder =
     cfg_set (ResNet_default_config encoder) ''body/encoder/blocks/n_reps'' (VIntList [3, 4, 6, 3])"

definition ResNet50_default_config :: "config \<Rightarrow> config" where
  "ResNet50_default_config encoder =
     (let config = ResNet34_default_config encoder;
          config = cfg_set config ''body/encoder/blocks/layout'' (VStr ''cna'');
          config = cfg_set config ''body/encoder/blocks/bottleneck'' (VBool True)
      in config)"

definition ResNet101_default_config :: "config \<Rightarrow> config" where
  "ResNet101_default_config encoder =
     cfg_set (ResNet50_default_config encoder) ''body/encoder/blocks/n_reps'' (VIntList [3, 4, 23, 3])"

definition ResNet152_default_config :: "config \<Rightarrow> config" where
  "ResNet152_default_config encoder =
     cfg_set (ResNet50_default_config encoder) ''body/encoder/blocks/n_reps'' (VIntList [3, 8, 36, 3])"

definition ResNeXt18_default_config :: "config \<Rightarrow> config" where
  "ResNeXt18_default_config encoder =
     cfg_set (ResNet18_default_config encoder) ''body/encoder/blocks/groups'' (VInt 32)"

definition ResNeXt34_default_config :: "config \<Rightarrow> config" where
  "ResNeXt34_default_config encoder =
     cfg_set (ResNet34_default_config encoder) ''body/encoder/blocks/groups'' (VInt 32)"

definition ResNeXt50_default_config :: "config \<Rightarrow> config" where
  "ResNeXt50_default_config encoder =
     cfg_set (ResNet50_default_config encoder) ''body/encoder/blocks/groups'' (VInt 32)"

definition ResNeXt101_default_config :: "config \<Rightarrow> config" where
  "ResNeXt101_default_config encoder =
     cfg_set (ResNet101_default_config encoder) ''body/encoder/blocks/groups'' (VInt 32)"

definition ResNeXt152_default_config :: "config \<Rightarrow> config" where
  "ResNeXt152_default_config encoder =
     cfg_set (ResNet152_default_config encoder) ''body/encoder/blocks/groups'' (VInt 32)"

section \<open>Properties of the block builder\<close>

lemma and_then_Inr_iff: "and_then r f = Inr y \<longleftrightarrow> (\<exists>x. r = Inr x \<and> f x = Inr y)"
  by (cases r) (simp_all add: and_then_def)

lemma ResBlock_init_Inr:
  "ResBlock_init py_eval c a = Inr r \<longleftrightarrow>
     (\<exists>fv st0 st1 st2. eval_filters py_eval c (filters a) = Inr fv
        \<and> resolve a fv = Inr st0
        \<and> apply_downsample (downsample a) st0 = Inr st1
        \<and> apply_bottleneck (bottleneck a) st1 = Inr st2
        \<and> build_call (op a) (n_reps a) st2 = Inr r)"
  by (simp add: ResBlock_init_def and_then_Inr_iff)

lemma wrap64_id: "int64 x \<Longrightarrow> wrap64 x = x"
  by (simp add: int64_def wrap64_def)



lemma apply_downsample_frame:
  assumes "apply_downsample f st = Inr st'"
  shows "rs_filters st' = rs_filters st" "rs_kernel_size st' = rs_kernel_size st"
    "rs_strides st' = rs_strides st" "rs_groups st' = rs_groups st"
    "rs_layout st' = rs_layout st" "rs_side_branch_stride st' = rs_side_branch_stride st"
    "length (rs_strides_d st') = length (rs_strides_d st)"
  using assms by (auto simp: apply_downsample_def Let_def split: if_splits list.splits)

lemma apply_downsample_on:
  assumes "apply_downsample f st = Inr st'" "truthy f"
  shows "rs_strides_d st \<noteq> []"
    "rs_strides_d st' = (hd (rs_strides_d st) * flag_value 2 f) # tl (rs_strides_d st)"
    "rs_side_branch_stride_d st' = rs_side_branch_stride_d st * flag_value 2 f"
  using assms by (auto simp: apply_downsample_def Let_def split: if_splits list.splits)

lemma apply_bottleneck_on:
  assumes "apply_bottleneck f st = Inr st'" "truthy f"
  shows "rs_filters st \<noteq> []"
    "rs_filters st' = [hd (rs_filters st)] @ rs_filters st @ [hd (rs_filters st) * flag_value 4 f]"
    "rs_layout st' = ''cna'' @ rs_layout st @ ''cna''"
    "rs_kernel_size st' = [1] @ rs_kernel_size st @ [1]"
    "rs_strides st' = [1] @ rs_strides st @ [1]"
    "rs_strides_d st' = [1] @ rs_strides_d st @ [1]"
    "rs_groups st' = [AInt 1] @ rs_groups st @ [AInt 1]"
    "rs_side_branch_stride st' = rs_side_branch_stride st"
    "rs_side_branch_stride_d st' = rs_side_branch_stride_d st"
  using assms by (auto simp: apply_bottleneck_def Let_def split: if_splits list.splits)

lemma apply_bottleneck_off:
  assumes "apply_bottleneck f st = Inr st'" "\<not> truthy f"
  shows "st' = st"
  using assms by (simp add: apply_bottleneck_def)

lemma build_call_Inr:
  assumes "build_call opr reps st = Inr r"
  shows "rs_filters st \<noteq> []"
    "layer_params r = \<lparr>lp_strides = Some (rs_strides_d st),
                        lp_side_branch_strides = Some (rs_side_branch_stride_d st)\<rparr>
                      # replicate (nat (reps - 1)) \<lparr>lp_strides = None, lp_side_branch_strides = None\<rparr>"
    "cb_layout r = ''B'' @ rs_layout st @ opr"
    "cb_filters r = rs_filters st" "cb_kernel_size r = rs_kernel_size st"
    "cb_strides r = rs_strides st" "cb_groups r = rs_groups st"
    "sb_filters (cb_side_branch r) = last (rs_filters st)"
    "sb_strides (cb_side_branch r) = rs_side_branch_stride st"
    "sb_layout (cb_side_branch r) = ''c''"
  using assms by (auto simp: build_call_def split: if_splits)

lemma resolve_Inr:
  assumes "resolve a fv = Inr st"
  shows "rs_layout st = layout a"
    "rs_filters st = broadcast (num_convs (layout a)) fv"
    "rs_kernel_size st = broadcast (num_convs (layout a)) (kernel_size a)"
    "rs_strides st = broadcast (num_convs (layout a)) (strides a)"
    "rs_strides_d st = broadcast (num_convs (layout a)) (strides a)"
    "rs_groups st = replicate (num_convs (layout a)) (groups a)"
    "rs_side_branch_stride st = wrap64 (prod_list (broadcast (num_convs (layout a)) (strides a)))"
    "rs_side_branch_stride_d st = wrap64 (prod_list (broadcast (num_convs (layout a)) (strides a)))"
    "list_all int64 (broadcast (num_convs (layout a)) (strides a))"
  using assms
  by (auto simp: resolve_def Let_def and_then_Inr_iff np_prod_def split: if_splits)

text \<open>The definitions that evaluate the constructor on a concrete input.\<close>

lemmas rb_defs = ResBlock_init_def ResBlock_constructed_def ConvBlock_def and_then_def
  eval_filters_def eval_same_def default_args_def resolve_def np_prod_def int64_def wrap64_def
  broadcast_def apply_downsample_def apply_bottleneck_def build_call_def truthy_def
  flag_value_def Let_def list_all_iff

lemma num_convs_cnacna: "num_convs ''cnacna'' = 2"
  by (simp add: num_convs_def CONV_LETTERS_def)

text \<open>
  Claim C1, as amended. With \<open>bottleneck\<close> enabled with expansion factor \<open>k\<close> (4 for
  \<open>True\<close>), the resolved filters list is the original list lengthened by exactly 2: the
  front entry is the original first filter and the last entry is the original first
  filter times \<open>k\<close>. When \<open>filters\<close> resolves to a single integer all original entries are
  equal to it, so the last entry is then also the original last filter times \<open>k\<close>.
\<close>

theorem bottleneck_filters:
  assumes "ResBlock_init py_eval c a = Inr r"
    and "truthy (bottleneck a)"
    and "eval_filters py_eval c (filters a) = Inr fv"
  shows "broadcast (num_convs (layout a)) fv \<noteq> [] \<and>
         cb_filters r = [hd (broadcast (num_convs (layout a)) fv)]
                        @ broadcast (num_convs (layout a)) fv
                        @ [hd (broadcast (num_convs (layout a)) fv) * flag_value 4 (bottleneck a)] \<and>
         length (cb_filters r) = length (broadcast (num_convs (layout a)) fv) + 2 \<and>
         hd (cb_filters r) = hd (broadcast (num_convs (layout a)) fv) \<and>
         last (cb_filters r) = hd (broadcast (num_convs (layout a)) fv) * flag_value 4 (bottleneck a) \<and>
         (\<forall>x. fv = AInt x \<longrightarrow>
            hd (cb_filters r) = x \<and>
            last (cb_filters r) = last (broadcast (num_convs (layout a)) fv) * flag_value 4 (bottleneck a))"
proof -
  from assms(1,3) obtain st0 st1 st2 where
    rs: "resolve a fv = Inr st0" and
    ds: "apply_downsample (downsample a) st0 = Inr st1" and
    bn: "apply_bottleneck (bottleneck a) st1 = Inr st2" and
    bc: "build_call (op a) (n_reps a) st2 = Inr r"
    by (auto simp: ResBlock_init_Inr)
  have f1: "rs_filters st1 = broadcast (num_convs (layout a)) fv"
    using apply_downsample_frame(1)[OF ds] by (simp add: resolve_Inr[OF rs])
  have ne: "rs_filters st1 \<noteq> []" by (rule apply_bottleneck_on(1)[OF bn assms(2)])
  have f2: "cb_filters r = [hd (rs_filters st1)] @ rs_filters st1 @ [hd (rs_filters st1) * flag_value 4 (bottleneck a)]"
    using build_call_Inr(4)[OF bc] apply_bottleneck_on(2)[OF bn assms(2)] by simp
  have sc: "hd (broadcast (num_convs (layout a)) fv) = x
      \<and> last (broadcast (num_convs (layout a)) fv) = x" if "fv = AInt x" for x
    using that ne f1 by (cases "num_convs (layout a)") (simp_all add: broadcast_def)
  have main: "broadcast (num_convs (layout a)) fv \<noteq> [] \<and>
         cb_filters r = [hd (broadcast (num_convs (layout a)) fv)]
                        @ broadcast (num_convs (layout a)) fv
                        @ [hd (broadcast (num_convs (layout a)) fv) * flag_value 4 (bottleneck a)]"
    using ne f2 f1 by simp
  then show ?thesis using sc by simp
qed


theorem bottleneck_filters_witness:
  "ResBlock_init eval_same 64 (default_args\<lparr>filters := FInt 64, bottleneck := FlBool True\<rparr>)
     = Inr \<lparr>layer_params = [\<lparr>lp_strides = Some [1, 1, 1, 1], lp_side_branch_strides = Some 1\<rparr>],
            cb_layout = ''Bcnacnacnacna+'', cb_filters = [64, 64, 64, 256],
            cb_kernel_size = [1, 3, 3, 1], cb_strides = [1, 1, 1, 1],
            cb_groups = [AInt 1, AInt 1, AInt 1, AInt 1],
            cb_side_branch = \<lparr>sb_layout = ''c'', sb_filters = 256, sb_strides = 1\<rparr>\<rparr>
   \<and> truthy (FlBool True)
   \<and> eval_filters eval_same 64 (FInt 64) = Inr (AInt 64)
   \<and> [64, 64, 64, 256] = [hd (broadcast 2 (AInt 64))] @ broadcast 2 (AInt 64)
                             @ [hd (broadcast 2 (AInt 64)) * flag_value 4 (FlBool True)]"
proof -
  let ?a = "default_args\<lparr>filters := FInt 64, bottleneck := FlBool True\<rparr>"
  let ?r = "\<lparr>layer_params = [\<lparr>lp_strides = Some [1, 1, 1, 1], lp_side_branch_strides = Some (1::int)\<rparr>],
            cb_layout = ''Bcnacnacnacna+'', cb_filters = [64, 64, 64, 256],
            cb_kernel_size = [1, 3, 3, 1], cb_strides = [1, 1, 1, 1],
            cb_groups = [AInt 1, AInt 1, AInt 1, AInt 1],
            cb_side_branch = \<lparr>sb_layout = ''c'', sb_filters = 256, sb_strides = 1\<rparr>\<rparr>"
  have n: "num_convs ''cnacna'' = 2" by (simp add: num_convs_def CONV_LETTERS_def)
  have run: "ResBlock_init eval_same 64 ?a = Inr ?r"
    by (simp add: rb_defs n numeral_2_eq_2)
  have t: "truthy (bottleneck ?a)" by (simp add: truthy_def)
  have e: "eval_filters eval_same 64 (filters ?a) = Inr (AInt 64)" by (simp add: eval_filters_def)
  have l: "num_convs (layout default_args) = 2" by (simp add: default_args_def n)
  from bottleneck_filters[OF run t e] run t e show ?thesis
    by (simp add: l broadcast_def flag_value_def)
qed

text \<open>
  Claim C1 as stated fails: with 3 input channels and \<open>filters=[64, 128]\<close> the resolved
  list is \<open>[64, 64, 128, 256]\<close>, while the input channel count in front and the last
  filter times 4 at the back would give \<open>[3, 64, 128, 512]\<close>.
\<close>

theorem bottleneck_filters_counterexample:
  "map_sum id cb_filters
     (ResBlock_init eval_same 3 (default_args\<lparr>filters := FList [64, 128], bottleneck := FlBool True\<rparr>))
     = Inr [64, 64, 128, 256]
   \<and> spec_bottleneck_filters 3 [64, 128] 4 = [3, 64, 128, 512]
   \<and> map_sum id cb_filters
     (ResBlock_init eval_same 3 (default_args\<lparr>filters := FList [64, 128], bottleneck := FlBool True\<rparr>))
     \<noteq> Inr (spec_bottleneck_filters 3 [64, 128] 4)"
proof -
  have n: "num_convs ''cnacna'' = 2" by (simp add: num_convs_def CONV_LETTERS_def)
  show ?thesis
    by (simp add: rb_defs n spec_bottleneck_filters_def)
qed


lemma resolved_shapes:
  assumes "ResBlock_init py_eval c a = Inr r"
    and "eval_filters py_eval c (filters a) = Inr fv"
  shows "cb_layout r = ''B'' @ expanded_layout a @ op a"
    "cb_groups r = (if truthy (bottleneck a)
        then [AInt 1] @ replicate (num_convs (layout a)) (groups a) @ [AInt 1]
        else replicate (num_convs (layout a)) (groups a))"
    "cb_kernel_size r = with_bottleneck (bottleneck a) (broadcast (num_convs (layout a)) (kernel_size a))"
    "cb_strides r = with_bottleneck (bottleneck a) (broadcast (num_convs (layout a)) (strides a))"
    "length (cb_filters r) = length (broadcast (num_convs (layout a)) fv)
        + (if truthy (bottleneck a) then 2 else 0)"
    "map_option length (rep_strides r 0) = Some (length (broadcast (num_convs (layout a)) (strides a))
        + (if truthy (bottleneck a) then 2 else 0))"
    "sb_strides (cb_side_branch r) = wrap64 (prod_list (broadcast (num_convs (layout a)) (strides a)))"
    "list_all int64 (broadcast (num_convs (layout a)) (strides a))"
proof -
  from assms obtain st0 st1 st2 where
    rs: "resolve a fv = Inr st0" and
    ds: "apply_downsample (downsample a) st0 = Inr st1" and
    bn: "apply_bottleneck (bottleneck a) st1 = Inr st2" and
    bc: "build_call (op a) (n_reps a) st2 = Inr r"
    by (auto simp: ResBlock_init_Inr)
  note r0 = resolve_Inr[OF rs]
  note fr = apply_downsample_frame[OF ds, unfolded r0]
  note out = build_call_Inr[OF bc]
  have sd: "rep_strides r 0 = Some (rs_strides_d st2)"
    by (simp add: rep_strides_def out(2))
  have "cb_layout r = ''B'' @ expanded_layout a @ op a
    \<and> cb_groups r = (if truthy (bottleneck a)
        then [AInt 1] @ replicate (num_convs (layout a)) (groups a) @ [AInt 1]
        else replicate (num_convs (layout a)) (groups a))
    \<and> cb_kernel_size r = with_bottleneck (bottleneck a) (broadcast (num_convs (layout a)) (kernel_size a))
    \<and> cb_strides r = with_bottleneck (bottleneck a) (broadcast (num_convs (layout a)) (strides a))
    \<and> length (cb_filters r) = length (broadcast (num_convs (layout a)) fv)
        + (if truthy (bottleneck a) then 2 else 0)
    \<and> map_option length (rep_strides r 0) = Some (length (broadcast (num_convs (layout a)) (strides a))
        + (if truthy (bottleneck a) then 2 else 0))
    \<and> sb_strides (cb_side_branch r) = wrap64 (prod_list (broadcast (num_convs (layout a)) (strides a)))"
  proof (cases "truthy (bottleneck a)")
    case True
    note on = apply_bottleneck_on[OF bn True]
    show ?thesis
      using True fr by (simp add: out sd on expanded_layout_def with_bottleneck_def)
  next
    case False
    have st: "st2 = st1" by (rule apply_bottleneck_off[OF bn False])
    show ?thesis
      using False fr by (simp add: out sd st expanded_layout_def with_bottleneck_def)
  qed
  then show "cb_layout r = ''B'' @ expanded_layout a @ op a"
    "cb_groups r = (if truthy (bottleneck a)
        then [AInt 1] @ replicate (num_convs (layout a)) (groups a) @ [AInt 1]
        else replicate (num_convs (layout a)) (groups a))"
    "cb_kernel_size r = with_bottleneck (bottleneck a) (broadcast (num_convs (layout a)) (kernel_size a))"
    "cb_strides r = with_bottleneck (bottleneck a) (broadcast (num_convs (layout a)) (strides a))"
    "length (cb_filters r) = length (broadcast (num_convs (layout a)) fv)
        + (if truthy (bottleneck a) then 2 else 0)"
    "map_option length (rep_strides r 0) = Some (length (broadcast (num_convs (layout a)) (strides a))
        + (if truthy (bottleneck a) then 2 else 0))"
    "sb_strides (cb_side_branch r) = wrap64 (prod_list (broadcast (num_convs (layout a)) (strides a)))"
    by simp_all
  show "list_all int64 (broadcast (num_convs (layout a)) (strides a))" by (rule r0(9))
qed






text \<open>
  Claim C4, as amended. With \<open>downsample\<close> enabled with factor \<open>d\<close> (2 for \<open>True\<close>, the
  integer itself otherwise), the first positional dictionary carries \<open>strides_d\<close>, the
  per-convolution strides with the first convolution's stride multiplied by \<open>d\<close>, and the
  side-branch stride multiplied by \<open>d\<close>; the dictionaries of all later repetitions are
  empty, so those repetitions receive the unmodified per-convolution strides and the
  unmodified side-branch stride. The side-branch stride is the product of the main-path
  strides as \<open>np.prod\<close> computes it, a 64-bit product: it is the exact product whenever
  that fits 64 bits. (Under \<open>bottleneck\<close> every strides list is wrapped in the strides 1
  of the two added convolutions.)
\<close>

theorem downsample_first_repetition_only:
  assumes "ResBlock_init py_eval c a = Inr r"
    and "downsample a = FlBool True \<and> d = 2 \<or> downsample a = FlInt d \<and> d \<noteq> 0"
  shows "broadcast (num_convs (layout a)) (strides a) \<noteq> [] \<and>
     layer_params r =
       \<lparr>lp_strides = Some (with_bottleneck (bottleneck a)
          ((hd (broadcast (num_convs (layout a)) (strides a)) * d)
            # tl (broadcast (num_convs (layout a)) (strides a)))),
        lp_side_branch_strides =
          Some (wrap64 (prod_list (broadcast (num_convs (layout a)) (strides a))) * d)\<rparr>
       # replicate (nat (n_reps a - 1)) \<lparr>lp_strides = None, lp_side_branch_strides = None\<rparr> \<and>
     cb_strides r = with_bottleneck (bottleneck a) (broadcast (num_convs (layout a)) (strides a)) \<and>
     sb_strides (cb_side_branch r) = wrap64 (prod_list (broadcast (num_convs (layout a)) (strides a))) \<and>
     rep_strides r 0 = Some (with_bottleneck (bottleneck a)
        ((hd (broadcast (num_convs (layout a)) (strides a)) * d)
          # tl (broadcast (num_convs (layout a)) (strides a)))) \<and>
     rep_side_branch_strides r 0 =
        Some (wrap64 (prod_list (broadcast (num_convs (layout a)) (strides a))) * d) \<and>
     (\<forall>i. 0 < i \<and> i < 1 + nat (n_reps a - 1) \<longrightarrow>
        rep_strides r i =
          Some (with_bottleneck (bottleneck a) (broadcast (num_convs (layout a)) (strides a))) \<and>
        rep_side_branch_strides r i =
          Some (wrap64 (prod_list (broadcast (num_convs (layout a)) (strides a))))) \<and>
     (int64 (prod_list (broadcast (num_convs (layout a)) (strides a))) \<longrightarrow>
        wrap64 (prod_list (broadcast (num_convs (layout a)) (strides a)))
          = prod_list (broadcast (num_convs (layout a)) (strides a)))"
proof -
  let ?ss = "broadcast (num_convs (layout a)) (strides a)"
  let ?p = "wrap64 (prod_list ?ss)"
  let ?none = "\<lparr>lp_strides = None, lp_side_branch_strides = None\<rparr> :: layer_param"
  from assms(2) have tr: "truthy (downsample a)" and dv: "flag_value 2 (downsample a) = d"
    by (auto simp: truthy_def flag_value_def)
  from assms(1) obtain fv st0 st1 st2 where
    ev: "eval_filters py_eval c (filters a) = Inr fv" and
    rs: "resolve a fv = Inr st0" and
    ds: "apply_downsample (downsample a) st0 = Inr st1" and
    bn: "apply_bottleneck (bottleneck a) st1 = Inr st2" and
    bc: "build_call (op a) (n_reps a) st2 = Inr r"
    by (auto simp: ResBlock_init_Inr)
  note sh = resolved_shapes[OF assms(1) ev]
  note dn = apply_downsample_on[OF ds tr, unfolded resolve_Inr[OF rs] dv]
  note out = build_call_Inr[OF bc]
  have st2: "rs_strides_d st2 = with_bottleneck (bottleneck a) ((hd ?ss * d) # tl ?ss)
      \<and> rs_side_branch_stride_d st2 = ?p * d"
  proof (cases "truthy (bottleneck a)")
    case True
    show ?thesis
      using True apply_bottleneck_on(6,9)[OF bn True] dn(2,3) by (simp add: with_bottleneck_def)
  next
    case False
    show ?thesis
      using False apply_bottleneck_off[OF bn False] dn(2,3) by (simp add: with_bottleneck_def)
  qed
  have lp: "layer_params r =
       \<lparr>lp_strides = Some (with_bottleneck (bottleneck a) ((hd ?ss * d) # tl ?ss)),
        lp_side_branch_strides = Some (?p * d)\<rparr>
       # replicate (nat (n_reps a - 1)) ?none"
    using st2 by (simp add: out(2))
  have first: "rep_strides r 0 = Some (with_bottleneck (bottleneck a) ((hd ?ss * d) # tl ?ss))"
    "rep_side_branch_strides r 0 = Some (?p * d)"
    by (simp_all add: rep_strides_def rep_side_branch_strides_def lp)
  have later: "rep_strides r i = Some (with_bottleneck (bottleneck a) ?ss) \<and>
        rep_side_branch_strides r i = Some ?p"
    if "0 < i \<and> i < 1 + nat (n_reps a - 1)" for i
  proof -
    from that obtain j where j: "i = Suc j" "j < nat (n_reps a - 1)"
      by (cases i) simp_all
    have "layer_params r ! i = ?none" "i < length (layer_params r)"
      using j by (simp_all add: lp)
    then show ?thesis
      by (simp add: rep_strides_def rep_side_branch_strides_def sh(4,7))
  qed
  have fit: "int64 (prod_list ?ss) \<longrightarrow> ?p = prod_list ?ss"
    by (simp add: wrap64_id)
  from dn(1) lp first sh(4,7) later fit show ?thesis by blast
qed

theorem downsample_first_repetition_only_witness:
  "map_sum id (\<lambda>r. (map (rep_strides r) [0, 1, 2], map (rep_side_branch_strides r) [0, 1, 2],
                       length (layer_params r)))
     (ResBlock_init eval_same 64
        (default_args\<lparr>strides := AList [1, 1], downsample := FlBool True, n_reps := 3\<rparr>))
     = Inr ([Some [2, 1], Some [1, 1], Some [1, 1]], [Some 2, Some 1, Some 1], 3) \<and>
   map_sum id (\<lambda>r. (map (rep_strides r) [0, 1], map (rep_side_branch_strides r) [0, 1],
                       length (layer_params r)))
     (ResBlock_init eval_same 64
        (default_args\<lparr>strides := AList [2, 5], downsample := FlInt 3, bottleneck := FlBool True,
                       n_reps := 2\<rparr>))
     = Inr ([Some [1, 6, 5, 1], Some [1, 2, 5, 1]], [Some 30, Some 10], 2)"
proof -
  let ?a = "default_args\<lparr>strides := AList [1, 1], downsample := FlBool True, n_reps := 3\<rparr>"
  let ?b = "default_args\<lparr>strides := AList [2, 5], downsample := FlInt 3, bottleneck := FlBool True,
                       n_reps := 2\<rparr>"
  note n = num_convs_cnacna
  obtain r where run: "ResBlock_init eval_same 64 ?a = Inr r"
    by (simp add: rb_defs n numeral_2_eq_2)
  obtain q where runb: "ResBlock_init eval_same 64 ?b = Inr q"
    by (simp add: rb_defs n numeral_2_eq_2)
  have ba: "broadcast (num_convs (layout ?a)) (strides ?a) = [1, 1]"
    and bb: "broadcast (num_convs (layout ?b)) (strides ?b) = [2, 5]"
    by (simp_all add: broadcast_def)
  have wa: "with_bottleneck (bottleneck ?a) xs = xs"
    and wb: "with_bottleneck (bottleneck ?b) xs = [1] @ xs @ [1]" for xs
    by (simp_all add: with_bottleneck_def default_args_def truthy_def)
  have pa: "wrap64 (prod_list [1, 1]) = 1" and pb: "wrap64 (prod_list [2, 5]) = 10"
    by (simp_all add: wrap64_def)
  have na: "nat (n_reps ?a - 1) = 2" and nb: "nat (n_reps ?b - 1) = 1" by simp_all
  have da: "downsample ?a = FlBool True \<and> (2::int) = 2 \<or> downsample ?a = FlInt 2 \<and> (2::int) \<noteq> 0"
    and db: "downsample ?b = FlBool True \<and> (3::int) = 2 \<or> downsample ?b = FlInt 3 \<and> (3::int) \<noteq> 0"
    by simp_all
  note ta = downsample_first_repetition_only[OF run da, unfolded ba wa pa na]
  note tb = downsample_first_repetition_only[OF runb db, unfolded bb wb pb nb]
  from ta have "map (rep_strides r) [0, 1, 2] = [Some [2, 1], Some [1, 1], Some [1, 1]]"
    "map (rep_side_branch_strides r) [0, 1, 2] = [Some 2, Some 1, Some 1]"
    "length (layer_params r) = 3"
    by simp_all
  moreover from tb have "map (rep_strides q) [0, 1] = [Some [1, 6, 5, 1], Some [1, 2, 5, 1]]"
    "map (rep_side_branch_strides q) [0, 1] = [Some 30, Some 10]"
    "length (layer_params q) = 2"
    by simp_all
  ultimately show ?thesis by (simp add: run runb)
qed

text \<open>
  Claim C4 as stated fails where the product of the strides does not fit 64 bits: with
  the strides \<open>[2^32, 2^32]\<close> the side-branch stride passed on is 0, and with
  \<open>[2^32 + 1, 2^32 + 1]\<close> it is \<open>2^33 + 1\<close>, not the product of the strides.
\<close>

theorem downsample_first_repetition_only_counterexample:
  "map_sum id (\<lambda>r. (sb_strides (cb_side_branch r), rep_side_branch_strides r 0, rep_side_branch_strides r 1))
     (ResBlock_init eval_same 64
        (default_args\<lparr>strides := AList [4294967296, 4294967296], downsample := FlBool True,
                       n_reps := 2\<rparr>))
     = Inr (0, Some 0, Some 0) \<and>
   prod_list [4294967296, 4294967296 :: int] = 18446744073709551616 \<and>
   map_sum id (\<lambda>r. (sb_strides (cb_side_branch r), rep_side_branch_strides r 0, rep_side_branch_strides r 1))
     (ResBlock_init eval_same 64
        (default_args\<lparr>strides := AList [4294967297, 4294967297], downsample := FlBool True,
                       n_reps := 2\<rparr>))
     = Inr (8589934593, Some 17179869186, Some 8589934593) \<and>
   prod_list [4294967297, 4294967297 :: int] = 18446744082299486209"
proof -
  note n = num_convs_cnacna
  show ?thesis
    by (simp add: rb_defs n rep_side_branch_strides_def numeral_2_eq_2)
qed

text \<open>
  Claim C5 fails on the code. \<open>filters\<close>, \<open>kernel_size\<close> and \<open>strides\<close> are broadcast only
  when they are an int (lines 36--38); \<open>groups\<close> is wrapped unconditionally (line 40). A
  \<open>groups\<close> sequence whose length matches the two convolutions of the layout is therefore
  not used as it is: each convolution gets the whole sequence.
\<close>

theorem groups_sequence_is_nested:
  "map_sum id cb_groups (ResBlock_init eval_same 64 (default_args\<lparr>groups := AList [1, 32]\<rparr>))
     = Inr [AList [1, 32], AList [1, 32]]"
proof -
  note n = num_convs_cnacna
  show ?thesis
    by (simp add: rb_defs n numeral_2_eq_2)
qed

section \<open>Properties of DropBlock\<close>

subsection \<open>Errors of the operator\<close>

lemma and_then_Inl_iff:
  "and_then r f = Inl e \<longleftrightarrow> (r = Inl e \<or> (\<exists>x. r = Inr x \<and> f x = Inl e))"
  by (cases r) (simp_all add: and_then_def)

lemma resolve_block_size_value_error:
  "(\<exists>msg. resolve_block_size b n = Inl (ValueError msg)) \<longleftrightarrow> \<not> valid_block_size b n"
  by (cases b) (auto simp: resolve_block_size_def valid_block_size_def)

lemma resolve_block_size_type_error:
  "resolve_block_size b n = Inl (ValueError ''block_size should be int or tuple!'') \<longleftrightarrow> b = BOther"
  by (cases b) (auto simp: resolve_block_size_def)

lemma resolve_block_size_length_error:
  "resolve_block_size b n
     = Inl (ValueError ''Length of `block_size` should be the same as spatial dimensions of input.'')
   \<longleftrightarrow> (\<exists>bs. b = BTuple bs \<and> length bs \<noteq> n)"
  by (cases b) (auto simp: resolve_block_size_def)

lemma resolve_block_size_Inr:
  assumes "resolve_block_size b n = Inr (bs, t)"
  shows "length bs = n" "t = Int32Tensor bs \<or> t = OtherTensor"
    "t = Int32Tensor bs \<Longrightarrow> list_all int32 bs"
  using assms
  by (cases b; auto simp: resolve_block_size_def list_all_iff split: if_splits)+

lemma block_size_tf_Inr:
  "block_size_tf t dims = Inr eff \<longleftrightarrow>
     (\<exists>bs. t = Int32Tensor bs \<and> eff = map (\<lambda>b. max b 1) (map2 min bs (map int dims)))"
  by (cases t) (auto simp: block_size_tf_def)

lemma block_size_tf_error: "block_size_tf t dims = Inl e \<Longrightarrow> e = FrameworkError"
  by (cases t) (auto simp: block_size_tf_def)

lemma tf_pad_error: "tf_pad t p = Inl e \<Longrightarrow> e = FrameworkError"
  by (auto simp: tf_pad_def split: if_splits)

lemma max_pooling_error: "max_pooling t k f = Inl e \<Longrightarrow> e = FrameworkError"
  by (auto simp: max_pooling_def Let_def split: if_splits)

lemma tf_multiply_error: "tf_multiply x m = Inl e \<Longrightarrow> e = FrameworkError"
  by (auto simp: tf_multiply_def split: option.splits)

lemma dropblock_mask_error:
  assumes "dropblock_mask g sh rate b fmt = Inl e"
  shows "resolve_block_size b (length (spatial_dims_of fmt sh)) = Inl e \<or> e = FrameworkError"
  using assms
  by (auto simp: dropblock_mask_def Let_def and_then_Inl_iff case_prod_beta
      dest: tf_pad_error max_pooling_error block_size_tf_error)

lemma priv_dropblock_error:
  assumes "priv_dropblock g x rate b fmt = Inl e"
  shows "resolve_block_size b (length (spatial_dims_of fmt (t_shape x))) = Inl e \<or> e = FrameworkError"
  using assms
  by (auto simp: priv_dropblock_def and_then_Inl_iff case_prod_beta
      dest: dropblock_mask_error tf_multiply_error)

lemma priv_dropblock_invalid:
  assumes "resolve_block_size b (length (spatial_dims_of fmt (t_shape x))) = Inl e"
  shows "priv_dropblock g x rate b fmt = Inl e"
  using assms by (simp add: priv_dropblock_def dropblock_mask_def Let_def and_then_def)

lemma dropblock_Inl: 
  "dropblock g x rate b tr fmt = Inl e \<longleftrightarrow> priv_dropblock g x rate b fmt = Inl e"
  by (auto simp: dropblock_def and_then_Inl_iff)

lemma dropblock_value_error:
  "dropblock g x rate b tr fmt = Inl (ValueError msg)
     \<longleftrightarrow> resolve_block_size b (length (spatial_dims_of fmt (t_shape x))) = Inl (ValueError msg)"
  unfolding dropblock_Inl
  using priv_dropblock_error[of g x rate b fmt "ValueError msg"]
    priv_dropblock_invalid[of b fmt x "ValueError msg" g rate]
  by auto

subsection \<open>Shapes of the mask\<close>

text \<open>
  The padding restores the spatial extents: in every dimension the left pad, the inner
  area and the right pad add up to the extent, for a requested block size of at least 1.
\<close>

lemma padded_extent:
  assumes "1 \<le> b"
  shows "nat ((max (min b (int d)) 1 - 1) div 2) + nat (int d - max (min b (int d)) 1 + 1)
         + nat (max (min b (int d)) 1 - 1 - (max (min b (int d)) 1 - 1) div 2) = d"
proof -
  define e where "e = max (min b (int d)) 1"
  show ?thesis
  proof (cases "d = 0")
    case True
    with assms have "e = 1" by (simp add: e_def)
    with True show ?thesis unfolding e_def[symmetric] by simp
  next
    case False
    with assms have r: "1 \<le> e" "e \<le> int d" by (auto simp: e_def)
    define l where "l = (e - 1) div 2"
    from r have l: "0 \<le> l" "l \<le> e - 1" by (auto simp: l_def)
    from r l have "nat l + nat (int d - e + 1) + nat (e - 1 - l) = d" by linarith
    then show ?thesis unfolding e_def l_def .
  qed
qed


lemma padded_extents:
  assumes len: "length bs = length dims" and pos: "\<forall>b \<in> set bs. 1 \<le> b"
    and eff: "eff = map (\<lambda>b. max b 1) (map2 min bs (map int dims))"
  shows "map2 (\<lambda>n (l, r). l + n + r)
           (map nat (inner_area eff dims))
           (zip (map nat (left_spatial_pad eff)) (map nat (right_spatial_pad eff)))
         = dims"
proof (rule nth_equalityI)
  have le: "length eff = length dims" using len by (simp add: eff)
  show "length (map2 (\<lambda>n (l, r). l + n + r) (map nat (inner_area eff dims))
           (zip (map nat (left_spatial_pad eff)) (map nat (right_spatial_pad eff)))) = length dims"
    using le by (simp add: inner_area_def left_spatial_pad_def right_spatial_pad_def)
  fix i
  assume "i < length (map2 (\<lambda>n (l, r). l + n + r) (map nat (inner_area eff dims))
           (zip (map nat (left_spatial_pad eff)) (map nat (right_spatial_pad eff))))"
  then have i: "i < length dims"
    using le by (simp add: inner_area_def left_spatial_pad_def right_spatial_pad_def)
  with len pos have b: "1 \<le> bs ! i" by simp
  have e: "eff ! i = max (min (bs ! i) (int (dims ! i))) 1"
    using i len by (simp add: eff)
  have "map2 (\<lambda>n (l, r). l + n + r) (map nat (inner_area eff dims))
           (zip (map nat (left_spatial_pad eff)) (map nat (right_spatial_pad eff))) ! i
        = nat ((eff ! i - 1) div 2) + nat (int (dims ! i) - eff ! i + 1)
          + nat (eff ! i - 1 - (eff ! i - 1) div 2)"
    using i le by (simp add: inner_area_def left_spatial_pad_def right_spatial_pad_def)
  also have "\<dots> = dims ! i" unfolding e by (rule padded_extent[OF b])
  finally show "map2 (\<lambda>n (l, r). l + n + r) (map nat (inner_area eff dims))
           (zip (map nat (left_spatial_pad eff)) (map nat (right_spatial_pad eff))) ! i = dims ! i" .
qed

lemma buildable_resolve:
  assumes "buildable b fmt n"
  shows "\<exists>bs. resolve_block_size b n = Inr (bs, Int32Tensor bs) \<and> length bs = n
              \<and> (\<forall>x \<in> set bs. 1 \<le> x)"
  using assms
  by (cases b) (auto simp: buildable_def resolve_block_size_def list_all_iff)

lemma shape_split:
  assumes "1 \<le> length (spatial_dims_of fmt sh)"
  shows "length (channels_of fmt sh) = 1"
    and "sh = (if fmt = ''channels_first''
               then [hd sh] @ channels_of fmt sh @ spatial_dims_of fmt sh
               else [hd sh] @ spatial_dims_of fmt sh @ channels_of fmt sh)"
proof -
  show "length (channels_of fmt sh) = 1"
    using assms by (cases sh) (auto simp: spatial_dims_of_def channels_of_def split: if_splits)
  show "sh = (if fmt = ''channels_first''
               then [hd sh] @ channels_of fmt sh @ spatial_dims_of fmt sh
               else [hd sh] @ spatial_dims_of fmt sh @ channels_of fmt sh)"
  proof (cases "fmt = ''channels_first''")
    case True
    with assms obtain a c rest where "sh = a # c # rest"
      by (cases sh; cases "tl sh") (auto simp: spatial_dims_of_def)
    with True show ?thesis by (simp add: spatial_dims_of_def channels_of_def)
  next
    case False
    from assms False have "1 \<le> length (butlast (drop 1 sh))"
      by (simp add: spatial_dims_of_def)
    then have "sh \<noteq> [] \<and> tl sh \<noteq> []"
      by (cases sh) auto
    then obtain a rest where sh: "sh = a # rest" and ne: "rest \<noteq> []"
      by (cases sh) auto
    have "drop (length rest) (a # rest) = [last rest]"
      using ne by (induction rest arbitrary: a) (auto simp: drop_Cons')
    with False sh ne show ?thesis
      by (simp add: spatial_dims_of_def channels_of_def)
  qed
qed

lemma t_shape_tabulate: "t_shape (tabulate sh f) = sh"
  by (simp add: tabulate_def)

lemma dropblock_mask_builds:
  assumes "buildable b fmt (length (spatial_dims_of fmt sh))"
  shows "\<exists>m g'. dropblock_mask g sh rate b fmt = Inr (m, g') \<and>
           t_shape m = (if fmt = ''channels_first''
               then [1] @ channels_of fmt sh @ spatial_dims_of fmt sh
               else [1] @ spatial_dims_of fmt sh @ channels_of fmt sh)"
proof -
  let ?dims = "spatial_dims_of fmt sh"
  let ?ch = "channels_of fmt sh"
  from assms have fmt: "fmt = ''channels_first'' \<or> fmt = ''channels_last''"
    and n: "1 \<le> length ?dims" "length ?dims \<le> 3"
    by (simp_all add: buildable_def)
  from buildable_resolve[OF assms] obtain bs where
    rs: "resolve_block_size b (length ?dims) = Inr (bs, Int32Tensor bs)"
    and len: "length bs = length ?dims" and pos: "\<forall>x \<in> set bs. 1 \<le> x" by blast
  define eff where "eff = map (\<lambda>b. max b 1) (map2 min bs (map int ?dims))"
  have bt: "block_size_tf (Int32Tensor bs) ?dims = Inr eff"
    by (simp add: block_size_tf_def eff_def)
  have le: "length eff = length ?dims" using len by (simp add: eff_def)
  note ext = padded_extents[OF len pos eff_def]
  have lch: "length ?ch = 1" by (rule shape_split(1)[OF n(1)])
  define inner where "inner = inner_area eff ?dims"
  have li: "length inner = length ?dims" using le by (simp add: inner_def inner_area_def)
  define mask0 where "mask0 = fst (bernoulli_sample g (gamma rate ?dims eff inner)
                        (sampling_mask_shape fmt ?ch inner))"
  have s0: "t_shape mask0 = sampling_mask_shape fmt ?ch inner"
    by (simp add: mask0_def bernoulli_sample_def)
  have lp: "length (left_spatial_pad eff) = length ?dims" "length (right_spatial_pad eff) = length ?dims"
    using le by (simp_all add: left_spatial_pad_def right_spatial_pad_def)
  define padded where "padded = tabulate (map2 (\<lambda>n (l, r). l + n + r) (t_shape mask0) (pad_shape fmt eff))
        (\<lambda>idx. if list_all2 (\<lambda>i (n, (l, r)). l \<le> i \<and> i < l + n) idx (zip (t_shape mask0) (pad_shape fmt eff))
                then t_at mask0 (map2 (\<lambda>i (l, r). i - l) idx (pad_shape fmt eff)) else 0)"
  have lq: "length (pad_shape fmt eff) = length (t_shape mask0)"
    using li lp lch
    by (cases "fmt = ''channels_first''") (simp_all add: s0 sampling_mask_shape_def pad_shape_def Let_def)
  have pd: "tf_pad mask0 (pad_shape fmt eff) = Inr padded"
    unfolding tf_pad_def padded_def using lq by simp
  have ps: "t_shape padded = (if fmt = ''channels_first'' then [1] @ ?ch @ ?dims else [1] @ ?dims @ ?ch)"
  proof (cases "fmt = ''channels_first''")
    case True
    from lch obtain c where c: "?ch = [c]" by (cases ?ch) auto
    show ?thesis
      using True ext li lp c
      by (simp add: padded_def t_shape_tabulate s0 sampling_mask_shape_def pad_shape_def Let_def
          inner_def)
  next
    case False
    from lch obtain c where c: "?ch = [c]" by (cases ?ch) auto
    show ?thesis
      using False ext li lp c
      by (simp add: padded_def t_shape_tabulate s0 sampling_mask_shape_def pad_shape_def Let_def
          inner_def)
  qed
  define pooled where "pooled = tabulate (t_shape padded)
                (\<lambda>idx. max_of (map (t_at padded)
                   (cart (map (\<lambda>(n, k, i). window n k i)
                      (zip (t_shape padded)
                        (zip (if fmt = ''channels_first'' then [1, 1] @ bs else [1] @ bs @ [1]) idx))))))"
  have k1: "\<not> (\<exists>k \<in> set bs. k < 1)" using pos by auto
  have lk: "length (if fmt = ''channels_first'' then [1, 1] @ bs else [1] @ bs @ [1])
      = length (t_shape padded)"
    using len lch by (cases "fmt = ''channels_first''") (simp_all add: ps)
  have mp: "max_pooling padded (pool_size bs) fmt = Inr pooled"
    unfolding max_pooling_def pool_size_def Let_def pooled_def
    using fmt n len k1 lk by auto
  have run: "dropblock_mask g sh rate b fmt
      = Inr (pooled\<lparr>t_data := map (\<lambda>v. 1 - v) (t_data pooled)\<rparr>,
             snd (bernoulli_sample g (gamma rate ?dims eff inner) (sampling_mask_shape fmt ?ch inner)))"
    using pd mp
    by (simp add: dropblock_mask_def Let_def rs bt and_then_def case_prod_beta
        inner_def[symmetric] mask0_def[symmetric])
  have "t_shape (pooled\<lparr>t_data := map (\<lambda>v. 1 - v) (t_data pooled)\<rparr>) = t_shape padded"
    by (simp add: pooled_def t_shape_tabulate)
  with run ps show ?thesis by simp
qed

lemma bshape_batch:
  "bshape (a # rest) (1 # rest) = Some (a # rest)"
  by (simp add: bshape_def Let_def list_all2_same zip_same_conv_map comp_def)

lemma priv_dropblock_builds:
  assumes "buildable b fmt (length (spatial_dims_of fmt (t_shape x)))"
  shows "\<exists>out. priv_dropblock g x rate b fmt = Inr out"
proof -
  let ?sh = "t_shape x"
  from dropblock_mask_builds[OF assms, of g rate] obtain m g' where
    run: "dropblock_mask g ?sh rate b fmt = Inr (m, g')"
    and sm: "t_shape m = (if fmt = ''channels_first''
               then [1] @ channels_of fmt ?sh @ spatial_dims_of fmt ?sh
               else [1] @ spatial_dims_of fmt ?sh @ channels_of fmt ?sh)"
    by blast
  from assms have n: "1 \<le> length (spatial_dims_of fmt ?sh)" by (simp add: buildable_def)
  note sx = shape_split(2)[OF n]
  define rest where "rest = (if fmt = ''channels_first''
               then channels_of fmt ?sh @ spatial_dims_of fmt ?sh
               else spatial_dims_of fmt ?sh @ channels_of fmt ?sh)"
  have x: "?sh = hd ?sh # rest" using sx by (simp add: rest_def split: if_splits)
  have m: "t_shape m = 1 # rest" using sm by (simp add: rest_def)
  have "bshape ?sh (t_shape m) = Some (hd ?sh # rest)"
    unfolding m by (subst x) (rule bshape_batch)
  then obtain out where "tf_multiply x m = Inr out"
    by (simp add: tf_multiply_def)
  with run show ?thesis
    by (simp add: priv_dropblock_def and_then_def)
qed

lemma clamp_spec:
  "length bs = length dims \<Longrightarrow>
     map (\<lambda>b. max b 1) (map2 min bs (map int dims)) = spec_effective_block_size bs dims"
  by (induction bs dims rule: list_induct2)
     (simp_all add: spec_effective_block_size_def max.commute)

lemma dropblock_mask_unfold:
  assumes "resolve_block_size block_size (length (spatial_dims_of data_format input_shape)) = Inr (bs, t)"
    and "block_size_tf t (spatial_dims_of data_format input_shape) = Inr eff"
  shows "dropblock_mask g input_shape dropout_rate block_size data_format =
     (let dims = spatial_dims_of data_format input_shape;
          inner = inner_area eff dims;
          sample = bernoulli_sample g (gamma dropout_rate dims eff inner)
                     (sampling_mask_shape data_format (channels_of data_format input_shape) inner)
      in and_then (tf_pad (fst sample) (pad_shape data_format eff)) (\<lambda>m.
         and_then (max_pooling m (pool_size bs) data_format) (\<lambda>m.
         Inr (m\<lparr>t_data := map (\<lambda>v. 1 - v) (t_data m)\<rparr>, snd sample))))"
  using assms by (simp add: dropblock_mask_def Let_def and_then_def case_prod_beta cong: sum.case_cong)

text \<open>
  The definitions that evaluate the operator on a concrete input.
\<close>

lemmas db_defs = dropblock_def priv_dropblock_def dropblock_mask_def and_then_def
  resolve_block_size_def block_size_tf_def int32_def inner_area_def gamma_def
  sampling_mask_shape_def left_spatial_pad_def right_spatial_pad_def pad_shape_def pool_size_def
  bernoulli_sample_def tf_pad_def max_pooling_def tf_multiply_def tf_size_def reduce_sum_def
  spatial_dims_of_def channels_of_def tabulate_def indices_def t_at_def window_def
  bshape_def bidx_def fl_mul_def fl_div_def fl_less_def const_rng_def unit_input_def Let_def
  upto.simps

subsection \<open>The claims about the operator\<close>




text \<open>
  Claim C6, as amended. Where the operator computes a block size at all (the requested
  sizes resolve and make an int32 tensor), the size it uses for the inner area, for the
  sampling probability and for the padding of the seed mask (\<open>block_size_tf\<close>) is the
  requested value clamped, \<open>max (min requested extent) 1\<close>; in a dimension of extent at
  least 1 it lies in \<open>[1, extent]\<close> and equals the extent when the request exceeds it.
  The max-pooling window is the requested value, unclamped.
\<close>

theorem effective_block_size:
  assumes "resolve_block_size block_size (length (spatial_dims_of data_format input_shape)) = Inr (bs, t)"
    and "block_size_tf t (spatial_dims_of data_format input_shape) = Inr eff"
  shows "eff = spec_effective_block_size bs (spatial_dims_of data_format input_shape) \<and>
     (\<forall>i < length (spatial_dims_of data_format input_shape).
        1 \<le> spatial_dims_of data_format input_shape ! i \<longrightarrow>
          1 \<le> eff ! i \<and> eff ! i \<le> int (spatial_dims_of data_format input_shape ! i) \<and>
          (int (spatial_dims_of data_format input_shape ! i) < bs ! i \<longrightarrow>
             eff ! i = int (spatial_dims_of data_format input_shape ! i))) \<and>
     pool_size bs = bs \<and>
     dropblock_mask g input_shape dropout_rate block_size data_format =
       (let dims = spatial_dims_of data_format input_shape;
            clamped = spec_effective_block_size bs dims;
            inner = inner_area clamped dims;
            sample = bernoulli_sample g (gamma dropout_rate dims clamped inner)
                       (sampling_mask_shape data_format (channels_of data_format input_shape) inner)
        in and_then (tf_pad (fst sample) (pad_shape data_format clamped)) (\<lambda>m.
           and_then (max_pooling m bs data_format) (\<lambda>m.
           Inr (m\<lparr>t_data := map (\<lambda>v. 1 - v) (t_data m)\<rparr>, snd sample))))"
proof -
  let ?dims = "spatial_dims_of data_format input_shape"
  have len: "length bs = length ?dims" by (rule resolve_block_size_Inr(1)[OF assms(1)])
  from assms(2) obtain bs' where t: "t = Int32Tensor bs'"
    and e: "eff = map (\<lambda>b. max b 1) (map2 min bs' (map int ?dims))"
    by (auto simp: block_size_tf_Inr)
  from resolve_block_size_Inr(2)[OF assms(1)] t have "bs' = bs" by simp
  with e have e': "eff = map (\<lambda>b. max b 1) (map2 min bs (map int ?dims))" by simp
  have eq: "eff = spec_effective_block_size bs ?dims"
    unfolding e' by (rule clamp_spec[OF len])
  have rng: "1 \<le> eff ! i \<and> eff ! i \<le> int (?dims ! i) \<and>
          (int (?dims ! i) < bs ! i \<longrightarrow> eff ! i = int (?dims ! i))"
    if "i < length ?dims" "1 \<le> ?dims ! i" for i
    using that len by (simp add: e')
  have un: "dropblock_mask g input_shape dropout_rate block_size data_format =
       (let dims = spatial_dims_of data_format input_shape;
            clamped = spec_effective_block_size bs dims;
            inner = inner_area clamped dims;
            sample = bernoulli_sample g (gamma dropout_rate dims clamped inner)
                       (sampling_mask_shape data_format (channels_of data_format input_shape) inner)
        in and_then (tf_pad (fst sample) (pad_shape data_format clamped)) (\<lambda>m.
           and_then (max_pooling m bs data_format) (\<lambda>m.
           Inr (m\<lparr>t_data := map (\<lambda>v. 1 - v) (t_data m)\<rparr>, snd sample))))"
    unfolding dropblock_mask_unfold[OF assms] by (simp add: Let_def eq pool_size_def)
  from eq rng un show ?thesis by (simp add: pool_size_def)
qed

theorem effective_block_size_witness:
  "resolve_block_size (BInt 5) (length (spatial_dims_of ''channels_last'' [1, 3, 1]))
      = Inr ([5], Int32Tensor [5]) \<and>
   block_size_tf (Int32Tensor [5]) (spatial_dims_of ''channels_last'' [1, 3, 1]) = Inr [3] \<and>
   spec_effective_block_size [5] (spatial_dims_of ''channels_last'' [1, 3, 1]) = [3] \<and>
   pool_size [5] = [5]"
proof -
  have r: "resolve_block_size (BInt 5) (length (spatial_dims_of ''channels_last'' [1, 3, 1]))
      = Inr ([5], Int32Tensor [5])"
    by (simp add: spatial_dims_of_def resolve_block_size_def int32_def)
  have b: "block_size_tf (Int32Tensor [5]) (spatial_dims_of ''channels_last'' [1, 3, 1]) = Inr [3]"
    by (simp add: spatial_dims_of_def block_size_tf_def)
  from effective_block_size[OF r b, of "const_rng 0" "1/2"]
  have "[3] = spec_effective_block_size [5] (spatial_dims_of ''channels_last'' [1, 3, 1])"
    and "pool_size [5] = [5]"
    by blast+
  with r b show ?thesis by simp
qed

text \<open>
  Claim C6 as stated fails: the pooling window is the requested size, not the clamped
  one. On a spatial extent of 4 the requests 5 and 4 have the same clamped size 4, yet
  for the same seed point the request 5 drops all four positions and the request 4 drops
  three. On an empty spatial extent the clamped size is 1, not the extent. For a
  requested size of \<open>2^31\<close> and for an input without spatial dimensions no block size is
  computed: the operator raises.
\<close>

theorem effective_block_size_counterexample:
  "spec_effective_block_size [5] [4] = [4] \<and> spec_effective_block_size [4] [4] = [4] \<and>
   pool_size [5] \<noteq> spec_effective_block_size [5] [4] \<and>
   map_sum id (t_data \<circ> fst)
     (dropblock_mask (const_rng 0) [1, 4, 1] (1/2) (BInt 5) ''channels_last'') = Inr [0, 0, 0, 0] \<and>
   map_sum id (t_data \<circ> fst)
     (dropblock_mask (const_rng 0) [1, 4, 1] (1/2) (BInt 4) ''channels_last'') = Inr [0, 0, 0, 1] \<and>
   block_size_tf (Int32Tensor [3]) [0] = Inr [1] \<and>
   dropblock_mask (const_rng 0) [1, 4, 1] (1/2) (BInt 2147483648) ''channels_last''
     = Inl FrameworkError \<and>
   dropblock_mask (const_rng 0) [4, 1] (1/2) (BInt 3) ''channels_last'' = Inl FrameworkError"
proof -
  have a: "spec_effective_block_size [5] [4] = [4]" "spec_effective_block_size [4] [4] = [4]"
    by (simp_all add: spec_effective_block_size_def)
  have b: "pool_size [5] \<noteq> spec_effective_block_size [5] [4]"
    by (simp add: a pool_size_def)
  have c: "map_sum id (t_data \<circ> fst)
     (dropblock_mask (const_rng 0) [1, 4, 1] (1/2) (BInt 5) ''channels_last'') = Inr [0, 0, 0, 0]"
    by (simp add: db_defs)
  have d: "map_sum id (t_data \<circ> fst)
     (dropblock_mask (const_rng 0) [1, 4, 1] (1/2) (BInt 4) ''channels_last'') = Inr [0, 0, 0, 1]"
    by (simp add: db_defs)
  have e: "block_size_tf (Int32Tensor [3]) [0] = Inr [1]"
    by (simp add: block_size_tf_def)
  have f: "dropblock_mask (const_rng 0) [1, 4, 1] (1/2) (BInt 2147483648) ''channels_last''
     = Inl FrameworkError"
    by (simp add: db_defs)
  have g: "dropblock_mask (const_rng 0) [4, 1] (1/2) (BInt 3) ''channels_last'' = Inl FrameworkError"
    by (simp add: db_defs)
  from a b c d e f g show ?thesis by blast
qed

text \<open>
  Claim C7, as amended. \<open>dropblock\<close> raises the \<open>ValueError\<close> of line 66 if and only
  if \<open>block_size\<close> is neither an int nor a tuple, and the \<open>ValueError\<close> of line 63 if and
  only if it is a tuple whose length differs from the number of spatial dimensions of
  the input; so it raises one of these two errors exactly for these block sizes, and
  then no tensor is returned. This holds whether dropout is active or not
  (\<open>is_training\<close> and \<open>dropout_rate\<close> are arbitrary). No error at all is raised when the
  data format is \<open>channels_first\<close> or \<open>channels_last\<close>, the input has one to three
  spatial dimensions and the entries of \<open>block_size\<close> are at least 1 and fit 32 bits.
  In between, a call of the framework can raise an error of its own.
\<close>

theorem block_size_errors:
  "(dropblock g inputs dropout_rate block_size is_training data_format
        = Inl (ValueError ''block_size should be int or tuple!'')
      \<longleftrightarrow> block_size = BOther) \<and>
   (dropblock g inputs dropout_rate block_size is_training data_format
        = Inl (ValueError ''Length of `block_size` should be the same as spatial dimensions of input.'')
      \<longleftrightarrow> (\<exists>bs. block_size = BTuple bs
             \<and> length bs \<noteq> length (spatial_dims_of data_format (t_shape inputs)))) \<and>
   ((dropblock g inputs dropout_rate block_size is_training data_format
        = Inl (ValueError ''block_size should be int or tuple!'')
     \<or> dropblock g inputs dropout_rate block_size is_training data_format
        = Inl (ValueError ''Length of `block_size` should be the same as spatial dimensions of input.''))
      \<longleftrightarrow> \<not> valid_block_size block_size (length (spatial_dims_of data_format (t_shape inputs)))) \<and>
   (buildable block_size data_format (length (spatial_dims_of data_format (t_shape inputs)))
      \<longrightarrow> (\<exists>out. dropblock g inputs dropout_rate block_size is_training data_format = Inr out))"
proof -
  let ?n = "length (spatial_dims_of data_format (t_shape inputs))"
  have a: "dropblock g inputs dropout_rate block_size is_training data_format
        = Inl (ValueError ''block_size should be int or tuple!'')
      \<longleftrightarrow> block_size = BOther"
    by (simp add: dropblock_value_error resolve_block_size_type_error)
  have b: "dropblock g inputs dropout_rate block_size is_training data_format
        = Inl (ValueError ''Length of `block_size` should be the same as spatial dimensions of input.'')
      \<longleftrightarrow> (\<exists>bs. block_size = BTuple bs \<and> length bs \<noteq> ?n)"
    by (simp add: dropblock_value_error resolve_block_size_length_error)
  have c: "(block_size = BOther \<or> (\<exists>bs. block_size = BTuple bs \<and> length bs \<noteq> ?n))
      \<longleftrightarrow> \<not> valid_block_size block_size ?n"
    by (cases block_size) (simp_all add: valid_block_size_def)
  have d: "\<exists>out. dropblock g inputs dropout_rate block_size is_training data_format = Inr out"
    if "buildable block_size data_format ?n"
  proof -
    from priv_dropblock_builds[OF that, of g dropout_rate] obtain out where
      "priv_dropblock g inputs dropout_rate block_size data_format = Inr out" by blast
    then show ?thesis by (simp add: dropblock_def and_then_def)
  qed
  from a b c d show ?thesis by blast
qed

theorem block_size_errors_witness:
  "dropblock (const_rng 0) (unit_input (Fin 1)) (1/2) BOther True ''channels_last''
      = Inl (ValueError ''block_size should be int or tuple!'') \<and>
   dropblock (const_rng 0) (unit_input (Fin 1)) (1/2) (BTuple [3]) True ''channels_last''
      = Inl (ValueError ''Length of `block_size` should be the same as spatial dimensions of input.'') \<and>
   dropblock (const_rng 0) (unit_input (Fin 1)) (1/2) (BTuple [3]) False ''channels_last''
      = Inl (ValueError ''Length of `block_size` should be the same as spatial dimensions of input.'') \<and>
   buildable (BTuple [3, 3]) ''channels_last''
      (length (spatial_dims_of ''channels_last'' (t_shape (unit_input (Fin 1))))) \<and>
   (\<exists>out. dropblock (const_rng 0) (unit_input (Fin 1)) (1/2) (BTuple [3, 3]) True ''channels_last''
      = Inr out)"
proof -
  have n: "length (spatial_dims_of ''channels_last'' (t_shape (unit_input (Fin 1)))) = 2"
    by (simp add: spatial_dims_of_def unit_input_def)
  note w = block_size_errors[of "const_rng 0" "unit_input (Fin 1)" "1/2" _ _ "''channels_last''",
      unfolded n]
  from w[of BOther True] have a: "dropblock (const_rng 0) (unit_input (Fin 1)) (1/2) BOther True ''channels_last''
      = Inl (ValueError ''block_size should be int or tuple!'')" by blast
  from w[of "BTuple [3]" True] have b: "dropblock (const_rng 0) (unit_input (Fin 1)) (1/2) (BTuple [3]) True ''channels_last''
      = Inl (ValueError ''Length of `block_size` should be the same as spatial dimensions of input.'')"
    by simp
  from w[of "BTuple [3]" False] have c: "dropblock (const_rng 0) (unit_input (Fin 1)) (1/2) (BTuple [3]) False ''channels_last''
      = Inl (ValueError ''Length of `block_size` should be the same as spatial dimensions of input.'')"
    by simp
  have d: "buildable (BTuple [3, 3]) ''channels_last'' 2"
    by (simp add: buildable_def int32_def)
  from w[of "BTuple [3, 3]" True] d
  have e: "\<exists>out. dropblock (const_rng 0) (unit_input (Fin 1)) (1/2) (BTuple [3, 3]) True ''channels_last''
      = Inr out"
    by blast
  from a b c d e show ?thesis unfolding n by blast
qed

text \<open>
  Claim C7 as stated fails in the direction "only if": with dropout active, the int
  block size 0 and a tuple of the right length with an entry of \<open>2^31\<close> make a call of
  the framework raise, though \<open>block_size\<close> is an int or a tuple of the right length.
\<close>

theorem block_size_errors_counterexample:
  "valid_block_size (BInt 0)
      (length (spatial_dims_of ''channels_last'' (t_shape (unit_input (Fin 1))))) \<and>
   dropblock (const_rng 0) (unit_input (Fin 1)) (1/2) (BInt 0) True ''channels_last''
      = Inl FrameworkError \<and>
   valid_block_size (BTuple [2147483648, 1])
      (length (spatial_dims_of ''channels_last'' (t_shape (unit_input (Fin 1))))) \<and>
   dropblock (const_rng 0) (unit_input (Fin 1)) (1/2) (BTuple [2147483648, 1]) True ''channels_last''
      = Inl FrameworkError"
proof -
  have a: "valid_block_size (BInt 0)
      (length (spatial_dims_of ''channels_last'' (t_shape (unit_input (Fin 1)))))"
    by (simp add: valid_block_size_def)
  have b: "dropblock (const_rng 0) (unit_input (Fin 1)) (1/2) (BInt 0) True ''channels_last''
      = Inl FrameworkError"
    by (simp add: db_defs)
  have c: "valid_block_size (BTuple [2147483648, 1])
      (length (spatial_dims_of ''channels_last'' (t_shape (unit_input (Fin 1)))))"
    by (simp add: valid_block_size_def spatial_dims_of_def unit_input_def)
  have d: "dropblock (const_rng 0) (unit_input (Fin 1)) (1/2) (BTuple [2147483648, 1]) True ''channels_last''
      = Inl FrameworkError"
    by (simp add: db_defs)
  from a b c d show ?thesis by blast
qed

text \<open>
  Claim C9. The rescaling divides by the sum of the kept mask elements without any guard.
  For every \<open>dropout_rate\<close> in \<open>(0, 1)\<close> there is a sample (the uniform number of the one seed
  position below the rate) for which every element of the mask is dropped: the divisor
  \<open>tf.reduce_sum(mask)\<close> is zero and the output is not a finite number, whatever the input.
\<close>

theorem all_dropped_divides_by_zero:
  assumes "0 < dropout_rate" and "dropout_rate < 1"
    and "uniform g (ops_run g) 0 < dropout_rate"
  shows "dropblock_mask g [1, 1, 1, 1] dropout_rate (BInt 1) ''channels_last''
           = Inr (\<lparr>t_shape = [1, 1, 1, 1], t_data = [0]\<rparr>, g\<lparr>ops_run := ops_run g + 1\<rparr>) \<and>
         reduce_sum \<lparr>t_shape = [1, 1, 1, 1], t_data = [0]\<rparr> = 0 \<and>
         dropblock g (unit_input v) dropout_rate (BInt 1) True ''channels_last''
           = Inr (\<lparr>t_shape = [1, 1, 1, 1], t_data = [NonFinite]\<rparr>, g\<lparr>ops_run := ops_run g + 1\<rparr>)"
proof -
  have m: "dropblock_mask g [1, 1, 1, 1] dropout_rate (BInt 1) ''channels_last''
           = Inr (\<lparr>t_shape = [1, 1, 1, 1], t_data = [0]\<rparr>, g\<lparr>ops_run := ops_run g + 1\<rparr>)"
    using assms by (simp add: db_defs)
  have s: "reduce_sum \<lparr>t_shape = [1, 1, 1, 1], t_data = [0]\<rparr> = 0"
    by (simp add: reduce_sum_def)
  have o: "dropblock g (unit_input v) dropout_rate (BInt 1) True ''channels_last''
           = Inr (\<lparr>t_shape = [1, 1, 1, 1], t_data = [NonFinite]\<rparr>, g\<lparr>ops_run := ops_run g + 1\<rparr>)"
    using assms(1) m
    by (cases v) (simp_all add: dropblock_def priv_dropblock_def unit_input_def and_then_def
        tf_multiply_def bshape_def bidx_def tabulate_def indices_def t_at_def fl_mul_def fl_div_def
        reduce_sum_def tf_size_def)
  from m s o show ?thesis by blast
qed

theorem all_dropped_divides_by_zero_witness:
  "dropblock_mask (const_rng 0) [1, 1, 1, 1] (1/2) (BInt 1) ''channels_last''
           = Inr (\<lparr>t_shape = [1, 1, 1, 1], t_data = [0]\<rparr>, (const_rng 0)\<lparr>ops_run := 1\<rparr>) \<and>
   dropblock (const_rng 0) (unit_input (Fin 7)) (1/2) (BInt 1) True ''channels_last''
           = Inr (\<lparr>t_shape = [1, 1, 1, 1], t_data = [NonFinite]\<rparr>, (const_rng 0)\<lparr>ops_run := 1\<rparr>)"
proof -
  have h: "(0::real) < 1/2" "(1/2::real) < 1" "uniform (const_rng 0) (ops_run (const_rng 0)) 0 < 1/2"
    by (simp_all add: const_rng_def)
  have o: "ops_run (const_rng 0) + 1 = 1" by (simp add: const_rng_def)
  from all_dropped_divides_by_zero[OF h, of "Fin 7", unfolded o] show ?thesis by simp
qed

section \<open>Properties of the architecture registry\<close>

text \<open>
  Claim C10. Whatever the configuration of \<open>Encoder\<close>, the configuration of \<open>ResNeXt50\<close>
  is the configuration of \<open>ResNet50\<close> with the one leaf path
  \<open>body/encoder/blocks/groups\<close> set to 32; every other leaf path has the same value in
  both.
\<close>

theorem resnext50_config:
  "ResNeXt50_default_config encoder
      = (ResNet50_default_config encoder)(''body/encoder/blocks/groups'' \<mapsto> VInt 32) \<and>
   ResNeXt50_default_config encoder ''body/encoder/blocks/groups'' = Some (VInt 32) \<and>
   (\<forall>path. path \<noteq> ''body/encoder/blocks/groups'' \<longrightarrow>
      ResNeXt50_default_config encoder path = ResNet50_default_config encoder path)"
  by (simp add: ResNeXt50_default_config_def cfg_set_def)

lemma ResNet50_leaves:
  "ResNet50_default_config Map.empty ''body/encoder/blocks/bottleneck'' = Some (VBool True)"
  "ResNet50_default_config Map.empty ''body/encoder/blocks/layout'' = Some (VStr ''cna'')"
  "ResNet50_default_config Map.empty ''body/encoder/blocks/n_reps'' = Some (VIntList [3, 4, 6, 3])"
  "ResNet50_default_config Map.empty ''body/encoder/blocks/filters'' = Some (VIntList [64, 128, 256, 512])"
  "ResNet50_default_config Map.empty ''body/encoder/blocks/groups'' = None"
  by (simp_all add: ResNet50_default_config_def ResNet34_default_config_def
      ResNet_default_config_def cfg_set_def cfg_add_def Let_def)

theorem resnext50_config_witness:
  "ResNeXt50_default_config Map.empty ''body/encoder/blocks/groups'' = Some (VInt 32) \<and>
   ResNet50_default_config Map.empty ''body/encoder/blocks/groups'' = None \<and>
   ResNeXt50_default_config Map.empty ''body/encoder/blocks/bottleneck'' = Some (VBool True) \<and>
   ResNeXt50_default_config Map.empty ''body/encoder/blocks/layout'' = Some (VStr ''cna'') \<and>
   ResNeXt50_default_config Map.empty ''body/encoder/blocks/n_reps'' = Some (VIntList [3, 4, 6, 3])"
  using resnext50_config[of Map.empty] ResNet50_leaves by simp

end
